theory Spec2Isabelle
  imports Main
begin

section \<open>Scenario runner: solutions and their enumeration (plugins/scenario/Runner.ts)\<close>

text \<open>
  A world is a mutable object in the source; here every callback takes the world and
  returns the world it leaves behind, next to what it returned or threw
  (\<open>Inl\<close> is a thrown error). A solution returns a context or nothing (a falsy value),
  in which case the runner keeps the context it had: \<open>(await solution(ctx, world)) || ctx\<close>.
\<close>

type_synonym ('ctx, 'w, 'e) solution = "'ctx \<Rightarrow> 'w \<Rightarrow> ('e + 'ctx option) \<times> 'w"

text \<open>The generator \<open>combos\<close>, as the list of the combinations it yields, in order.\<close>

fun combos :: "'a list list \<Rightarrow> 'a list list" where
  "combos [] = [[]]"
| "combos (choice # choices) =
     concat (map (\<lambda>option. map (\<lambda>combo. option # combo) (combos choices)) choice)"

definition identity :: "('ctx, 'w, 'e) solution" where
  "identity ctx world = (Inr (Some ctx), world)"

text \<open>A value of type \<open>T | T[]\<close>; \<open>null\<close> (or \<open>undefined\<close>) is \<open>None\<close> around it.\<close>

datatype 'a one_or_many = One 'a | Many "'a list"

definition asList :: "'a one_or_many \<Rightarrow> 'a list" where
  "asList v = (case v of One x \<Rightarrow> [] @ [x] | Many xs \<Rightarrow> [] @ xs)"

definition mapSolution ::
  "('ctx, 'w, 'e) solution one_or_many option \<Rightarrow> ('ctx, 'w, 'e) solution list" where
  "mapSolution s = (case s of None \<Rightarrow> [identity] | Some v \<Rightarrow> asList v)"

section \<open>Scenario runner: one run of a scenario (Runner.run)\<close>

text \<open>
  A constraint has the two capabilities \<open>solve\<close> and \<open>check\<close>; a scenario carries its
  requirements, the environment's \<open>initializer\<close> and \<open>transformer\<close>, the \<open>property\<close> and
  the constraints (\<open>[]\<close> when the scenario declares none). Every callback may throw and,
  when it is handed the world, may change it. The property returns a transaction
  receipt or nothing; a receipt is modelled by the number its
  \<open>cumulativeGasUsed.toNumber()\<close> yields. A callback may throw any value, also a falsy one.
\<close>

record ('req, 'ctx, 'w, 'e) constraint =
  solve :: "'req \<Rightarrow> 'ctx \<Rightarrow> 'w \<Rightarrow> ('e + ('ctx, 'w, 'e) solution one_or_many option) \<times> 'w"
  check :: "'req \<Rightarrow> 'ctx \<Rightarrow> 'w \<Rightarrow> ('e + unit) \<times> 'w"

record ('req, 'ctx, 'u, 'w, 'e) scenario =
  requirements :: 'req
  initializer :: "'w \<Rightarrow> ('e + 'ctx) \<times> 'w"
  transformer :: "'ctx \<Rightarrow> 'e + 'u"
  property :: "'u \<Rightarrow> 'ctx \<Rightarrow> 'w \<Rightarrow> ('e + nat option) \<times> 'w"
  constraints :: "('req, 'ctx, 'w, 'e) constraint list"

text \<open>
  The calls a run makes, in order, each with the arguments and the world it was made
  in; \<open>RevertAndSnapshot w snap\<close> is \<open>world._revertAndSnapshot(snap)\<close> called in world \<open>w\<close>.
  The list of calls is returned beside the result: it plays the part of a test's spies.
\<close>

datatype ('ctx, 'u, 'w) call =
    Snapshot 'w
  | Initializer 'w
  | Solve 'ctx 'w
  | Apply 'ctx 'w
  | Check 'ctx 'w
  | Transformer 'ctx
  | Property 'u 'ctx 'w
  | RevertAndSnapshot 'w 'w

text \<open>
  Modelled from the spec: \<open>World._snapshot\<close> and \<open>World._revertAndSnapshot\<close> (World.ts is not
  among the sources). A snapshot handle stands for the world state it saved; taking a
  snapshot leaves the world as it is; reverting restores the saved state and hands out
  a fresh snapshot of it. Both return the handle and the world.
\<close>

definition snapshot :: "'w \<Rightarrow> 'w \<times> 'w" where
  "snapshot world = (world, world)"

definition revertAndSnapshot :: "'w \<Rightarrow> 'w \<Rightarrow> 'w \<times> 'w" where
  "revertAndSnapshot worldSnapshot world = (worldSnapshot, worldSnapshot)"

text \<open>
  The fields of \<open>Result\<close> that depend on the run: \<open>gasUsed\<close> is the floating-point quotient
  \<open>totalGas / numSolutionSets\<close> of the two numbers kept here; \<open>error\<close> is \<open>err || null\<close>, where
  \<open>err\<close> is the optional last argument and \<open>truthy\<close> is JavaScript's truthiness on the values
  the callbacks throw: a falsy thrown value is reported as \<open>null\<close>.
\<close>

record 'e result =
  totalGas :: nat
  numSolutionSets :: nat
  error :: "'e option"

definition generateResult :: "('e \<Rightarrow> bool) \<Rightarrow> nat \<Rightarrow> nat \<Rightarrow> 'e option \<Rightarrow> 'e result" where
  "generateResult truthy gas n err =
     \<lparr>totalGas = gas, numSolutionSets = n,
      error = (case err of Some e \<Rightarrow> if truthy e then Some e else None | None \<Rightarrow> None)\<rparr>"

definition getContext ::
  "('req, 'ctx, 'u, 'w, 'e) scenario \<Rightarrow> 'w \<Rightarrow> ('e + 'ctx) \<times> 'w" where
  "getContext sc world = initializer sc world"

text \<open>
  \<open>Promise.all(constraints.map((c) => c.solve(...).then(mapSolution)))\<close>: \<open>map\<close> starts the
  \<open>solve\<close> of every constraint, in their order, before anything is awaited, so every one
  of them runs, also after one has thrown; the whole is rejected with an error when one
  threw. Each call is taken to run to its end before the next one starts (how their
  awaits interleave is not modelled), so the error is that of the first constraint
  that threw.
\<close>

fun solveAll ::
  "'req \<Rightarrow> 'ctx \<Rightarrow> ('req, 'ctx, 'w, 'e) constraint list \<Rightarrow> 'w
     \<Rightarrow> ('e + ('ctx, 'w, 'e) solution list list) \<times> 'w \<times> ('ctx, 'u, 'w) call list" where
  "solveAll req context [] world = (Inr [], world, [])"
| "solveAll req context (c # cs) world =
     (case solve c req context world of
        (solved, world') \<Rightarrow>
          (case solveAll req context cs world' of
             (others, world'', calls) \<Rightarrow>
               ((case solved of
                   Inl e \<Rightarrow> Inl e
                 | Inr s \<Rightarrow>
                     (case others of
                        Inl e \<Rightarrow> Inl e
                      | Inr choices \<Rightarrow> Inr (mapSolution s # choices))),
                world'', Solve context world # calls)))"

text \<open>\<open>for (const solution of combo) ctx = (await solution(ctx, world)) || ctx\<close>\<close>

fun applySolutions ::
  "('ctx, 'w, 'e) solution list \<Rightarrow> 'ctx \<Rightarrow> 'w \<Rightarrow> ('e + 'ctx) \<times> 'w \<times> ('ctx, 'u, 'w) call list" where
  "applySolutions [] ctx world = (Inr ctx, world, [])"
| "applySolutions (solution # rest) ctx world =
     (case solution ctx world of
        (Inl e, world') \<Rightarrow> (Inl e, world', [Apply ctx world])
      | (Inr returned, world') \<Rightarrow>
          (case applySolutions rest (case returned of Some ctx' \<Rightarrow> ctx' | None \<Rightarrow> ctx) world' of
             (outcome, world'', calls) \<Rightarrow> (outcome, world'', Apply ctx world # calls)))"

text \<open>\<open>for (const constraint of constraints) await constraint.check(requirements, ctx, world)\<close>\<close>

fun checkConstraints ::
  "'req \<Rightarrow> ('req, 'ctx, 'w, 'e) constraint list \<Rightarrow> 'ctx \<Rightarrow> 'w
     \<Rightarrow> ('e + unit) \<times> 'w \<times> ('ctx, 'u, 'w) call list" where
  "checkConstraints req [] ctx world = (Inr (), world, [])"
| "checkConstraints req (c # cs) ctx world =
     (case check c req ctx world of
        (Inl e, world') \<Rightarrow> (Inl e, world', [Check ctx world])
      | (Inr _, world') \<Rightarrow>
          (case checkConstraints req cs ctx world' of
             (outcome, world'', calls) \<Rightarrow> (outcome, world'', Check ctx world # calls)))"

text \<open>
  The body of the \<open>try\<close> block for one combination, up to the property's receipt:
  \<open>Inl e\<close> is what the \<open>catch\<close> clause receives.
\<close>

definition trial ::
  "('req, 'ctx, 'u, 'w, 'e) scenario \<Rightarrow> ('ctx, 'w, 'e) solution list \<Rightarrow> 'ctx \<Rightarrow> 'w
     \<Rightarrow> ('e + nat option) \<times> 'w \<times> ('ctx, 'u, 'w) call list" where
  "trial sc combo ctx0 world =
     (case applySolutions combo ctx0 world of
        (Inl e, world1, calls1) \<Rightarrow> (Inl e, world1, calls1)
      | (Inr ctx, world1, calls1) \<Rightarrow>
          (case checkConstraints (requirements sc) (constraints sc) ctx world1 of
             (Inl e, world2, calls2) \<Rightarrow> (Inl e, world2, calls1 @ calls2)
           | (Inr _, world2, calls2) \<Rightarrow>
               (case transformer sc ctx of
                  Inl e \<Rightarrow> (Inl e, world2, calls1 @ calls2 @ [Transformer ctx])
                | Inr u \<Rightarrow>
                    (case property sc u ctx world2 of
                       (outcome, world3) \<Rightarrow>
                         (outcome, world3,
                          calls1 @ calls2 @ [Transformer ctx, Property u ctx world2])))))"

text \<open>
  The \<open>for\<close> loop over the combinations, with the loop's variables \<open>worldSnapshot\<close>,
  \<open>cumulativeGas\<close> and \<open>numSolutionSets\<close>. The outer \<open>Inl e\<close> is \<open>run\<close> itself throwing:
  \<open>getContext\<close> is called before the \<open>try\<close>. After the \<open>try\<close> block, on either path, the
  \<open>finally\<close> clause reverts and snapshots.
\<close>

fun runCombos ::
  "('e \<Rightarrow> bool) \<Rightarrow> ('req, 'ctx, 'u, 'w, 'e) scenario \<Rightarrow> ('ctx, 'w, 'e) solution list list \<Rightarrow> 'w
     \<Rightarrow> nat \<Rightarrow> nat \<Rightarrow> 'w \<Rightarrow> ('e + 'e result) \<times> 'w \<times> ('ctx, 'u, 'w) call list" where
  "runCombos truthy sc [] worldSnapshot cumulativeGas n world =
     (Inr (generateResult truthy cumulativeGas n None), world, [])"
| "runCombos truthy sc (combo # rest) worldSnapshot cumulativeGas n world =
     (case getContext sc world of
        (Inl e, world0) \<Rightarrow> (Inl e, world0, [Initializer world])
      | (Inr ctx, world0) \<Rightarrow>
          (case trial sc combo ctx world0 of
             (Inl e, world1, calls) \<Rightarrow>
               (case revertAndSnapshot worldSnapshot world1 of
                  (worldSnapshot', world2) \<Rightarrow>
                    (Inr (generateResult truthy 0 (Suc n) (Some e)), world2,
                     Initializer world # calls @ [RevertAndSnapshot world1 worldSnapshot]))
           | (Inr txnReceipt, world1, calls) \<Rightarrow>
               (case revertAndSnapshot worldSnapshot world1 of
                  (worldSnapshot', world2) \<Rightarrow>
                    (case runCombos truthy sc rest worldSnapshot'
                            (cumulativeGas + (case txnReceipt of Some gas \<Rightarrow> gas | None \<Rightarrow> 0))
                            (Suc n) world2 of
                       (outcome, world3, calls') \<Rightarrow>
                         (outcome, world3,
                          Initializer world # calls @ [RevertAndSnapshot world1 worldSnapshot]
                            @ calls')))))"

definition run ::
  "('e \<Rightarrow> bool) \<Rightarrow> ('req, 'ctx, 'u, 'w, 'e) scenario \<Rightarrow> 'w
     \<Rightarrow> ('e + 'e result) \<times> 'w \<times> ('ctx, 'u, 'w) call list" where
  "run truthy sc world =
     (case snapshot world of
        (worldSnapshot, world0) \<Rightarrow>
          (case getContext sc world0 of
             (Inl e, world1) \<Rightarrow> (Inl e, world1, [Snapshot world, Initializer world0])
           | (Inr context, world1) \<Rightarrow>
               (case solveAll (requirements sc) context (constraints sc) world1 of
                  (Inl e, world2, calls) \<Rightarrow>
                    (Inl e, world2, Snapshot world # Initializer world0 # calls)
                | (Inr solutionChoices, world2, calls) \<Rightarrow>
                    (case runCombos truthy sc (combos ([[identity]] @ solutionChoices))
                            worldSnapshot 0 0 world2 of
                       (outcome, world3, calls') \<Rightarrow>
                         (outcome, world3,
                          Snapshot world # Initializer world0 # calls @ calls')))))"

text \<open>Reading the list of calls.\<close>

definition property_calls :: "('ctx, 'u, 'w) call list \<Rightarrow> ('ctx, 'u, 'w) call list" where
  "property_calls calls = filter (\<lambda>c. case c of Property _ _ _ \<Rightarrow> True | _ \<Rightarrow> False) calls"

definition revert_calls :: "('ctx, 'u, 'w) call list \<Rightarrow> ('ctx, 'u, 'w) call list" where
  "revert_calls calls = filter (\<lambda>c. case c of RevertAndSnapshot _ _ \<Rightarrow> True | _ \<Rightarrow> False) calls"

text \<open>
  The worlds in which the loop started its trials: those of the calls of the
  initializer after the first, which is the one of the setup.
\<close>

definition initializer_worlds :: "('ctx, 'u, 'w) call list \<Rightarrow> 'w list" where
  "initializer_worlds calls = concat (map (\<lambda>c. case c of Initializer w \<Rightarrow> [w] | _ \<Rightarrow> []) calls)"

definition trial_starts :: "('ctx, 'u, 'w) call list \<Rightarrow> 'w list" where
  "trial_starts calls = tl (initializer_worlds calls)"

text \<open>The calls made inside the \<open>try\<close> block.\<close>

definition trial_call :: "('ctx, 'u, 'w) call \<Rightarrow> bool" where
  "trial_call c =
     (case c of Apply _ _ \<Rightarrow> True | Check _ _ \<Rightarrow> True | Transformer _ \<Rightarrow> True
      | Property _ _ _ \<Rightarrow> True | _ \<Rightarrow> False)"

text \<open>
  The strict bracket, as a scan of the calls of the loop. Between trials
  (\<open>Some start\<close>) the only call allowed is the initializer's, in the world \<open>start\<close>; inside
  a trial (\<open>None\<close>) calls of the \<open>try\<close> block follow until a revert to \<open>base\<close>, after which
  the next trial must start in \<open>base\<close>. The calls may not end inside a trial.
\<close>

fun bracketed :: "'w \<Rightarrow> 'w option \<Rightarrow> ('ctx, 'u, 'w) call list \<Rightarrow> bool" where
  "bracketed base (Some start) [] = True"
| "bracketed base (Some start) (c # calls) =
     (case c of Initializer w \<Rightarrow> w = start \<and> bracketed base None calls | _ \<Rightarrow> False)"
| "bracketed base None [] = False"
| "bracketed base None (c # calls) =
     (case c of
        RevertAndSnapshot w snap \<Rightarrow> snap = base \<and> bracketed base (Some base) calls
      | _ \<Rightarrow> trial_call c \<and> bracketed base None calls)"




section \<open>Example scenarios\<close>

text \<open>
  Scenarios to run the model on. The world is the number of transactions made so far;
  a context is the list of the names of the solutions applied to it. \<open>tag name\<close> is a
  solution that makes a transaction and adds its name to the context; a constraint
  \<open>offering names\<close> solves to one such solution per name. \<open>two_by_three failing\<close> has two
  constraints, with two and three solutions, and a property that makes a transaction
  and throws on the contexts that satisfy \<open>failing\<close>.
\<close>

text \<open>The thrown values of the examples are strings, falsy when empty.\<close>

definition truthy_string :: "string \<Rightarrow> bool" where
  "truthy_string e \<longleftrightarrow> e \<noteq> []"

definition tag :: "string \<Rightarrow> (string list, nat, string) solution" where
  "tag name = (\<lambda>ctx world. (Inr (Some (ctx @ [name])), Suc world))"

definition offering :: "string list \<Rightarrow> (unit, string list, nat, string) constraint" where
  "offering names =
     \<lparr>solve = (\<lambda>req ctx world. (Inr (Some (Many (map tag names))), world)),
      check = (\<lambda>req ctx world. (Inr (), world))\<rparr>"

definition two_by_three ::
  "(string list \<Rightarrow> bool) \<Rightarrow> (unit, string list, string list, nat, string) scenario" where
  "two_by_three failing =
     \<lparr>requirements = (),
      initializer = (\<lambda>world. (Inr [], world)),
      transformer = (\<lambda>ctx. Inr ctx),
      property = (\<lambda>u ctx world.
        if failing ctx then (Inl ''assertion failed'', Suc world)
        else (Inr (Some 21000), Suc world)),
      constraints = [offering [''a1'', ''a2''], offering [''b1'', ''b2'', ''b3'']]\<rparr>"

text \<open>A scenario whose one constraint makes a transaction while it solves.\<close>

definition solving_moves_world :: "(unit, string list, string list, nat, string) scenario" where
  "solving_moves_world =
     \<lparr>requirements = (),
      initializer = (\<lambda>world. (Inr [], world)),
      transformer = (\<lambda>ctx. Inr ctx),
      property = (\<lambda>u ctx world. (Inr None, world)),
      constraints =
        [\<lparr>solve = (\<lambda>req ctx world. (Inr (Some (Many [identity, identity])), Suc world)),
          check = (\<lambda>req ctx world. (Inr (), world))\<rparr>]\<rparr>"




section \<open>Spider: the alias and proxy stores (Spider.ts)\<close>

type_synonym address = string
type_synonym "alias" = string

text \<open>
  An alias template is a string or a function (named here); \<open>Undefined\<close> is what
  indexing an empty template array yields.
\<close>

datatype aliasTemplate = Str string | Fn string | Undefined

text \<open>
  The errors of a crawl. \<open>AliasConflict alias had address\<close> is
  \<open>Had ${alias} -> ${maybeExists}, not ${address}\<close>; \<open>ConfigButNoContract\<close> is
  \<open>Found config for '${aliasTemplate}' but no contract at ${address}\<close>; \<open>FailedToCrawl\<close> is
  \<open>Failed to crawl ${implAlias} at ${implNode.address}\<close>; \<open>Collaborator\<close> is anything
  thrown by the provider, the importer or the relation readers.
\<close>

datatype crawl_error =
    AliasConflict "alias" address address
  | ConfigButNoContract aliasTemplate address
  | FailedToCrawl "alias" address
  | Collaborator string

text \<open>
  \<open>Aliases\<close> and \<open>Proxies\<close> are both \<open>Map<string, string>\<close>. \<open>if (maybeExists)\<close> is a
  truthiness test: it fails for an absent key and for the empty string.
\<close>

definition maybeStore ::
  "alias \<Rightarrow> address \<Rightarrow> (alias \<rightharpoonup> address) \<Rightarrow> crawl_error + (bool \<times> (alias \<rightharpoonup> address))" where
  "maybeStore alias address into =
     (case into alias of
        Some maybeExists \<Rightarrow>
          if maybeExists \<noteq> [] then
            (if maybeExists = address then Inr (False, into)
             else Inl (AliasConflict alias maybeExists address))
          else Inr (True, into(alias \<mapsto> address))
      | None \<Rightarrow> Inr (True, into(alias \<mapsto> address)))"

section \<open>Spider: the crawl (Spider.ts)\<close>

text \<open>
  A contract handle is a value of \<open>'c\<close>, a build file one of \<open>'b\<close>. A relation inner config
  carries its field key, which only \<open>readField\<close> interprets, and the optional \<open>alias\<close>, a
  template or an array of templates; a relation config carries the optional \<open>artifact\<close>,
  \<open>delegates\<close> and \<open>relations\<close> (the entries of the object, in order).
\<close>

record aliasRender =
  template :: aliasTemplate
  index :: nat

record discoverNode =
  node_address :: address
  node_aliasRender :: aliasRender

record ('b, 'c) build =
  buildFile :: 'b
  build_contract :: 'c

record relationInnerConfig =
  field :: "string option"
  alias_templates :: "aliasTemplate one_or_many option"

record relationConfig =
  artifact :: "string option"
  delegates :: "relationInnerConfig option"
  relations :: "(string \<times> relationInnerConfig) list option"

text \<open>The maps a crawl works on: the traversal context and the three stores.\<close>

record 'c crawl_state =
  cs_context :: "string \<rightharpoonup> 'c list"
  cs_aliases :: "alias \<rightharpoonup> address"
  cs_proxies :: "alias \<rightharpoonup> address"
  cs_contracts :: "alias \<rightharpoonup> 'c"

text \<open>
  What the crawl reads from outside, with the cache, the network and the runtime
  environment fixed: the provider's \<open>getCode\<close>; the importers \<open>readAndCacheContract\<close> and
  \<open>fetchAndCacheContract\<close> with \<open>getEthersContract\<close> and the build file's contract name; the
  functions \<open>aliasTemplateKey\<close>, \<open>readAlias\<close> and \<open>readField\<close> (applied to the field key of
  the config and the default key) of RelationConfig.ts; and the construction of a
  contract at an address from the merged interfaces of a delegate and the contract.
  None of these is among the sources. Those that are asynchronous may throw.
\<close>

record ('b, 'c) collaborators =
  getCode :: "address \<Rightarrow> crawl_error + string"
  readAndCacheContract :: "string \<Rightarrow> address \<Rightarrow> crawl_error + 'b"
  fetchAndCacheContract :: "address \<Rightarrow> crawl_error + 'b"
  getEthersContract :: "address \<Rightarrow> 'b \<Rightarrow> 'c"
  contractName :: "'b \<Rightarrow> string"
  aliasTemplateKey :: "aliasTemplate \<Rightarrow> string"
  readAlias :: "'c option \<Rightarrow> aliasRender \<Rightarrow> (string \<rightharpoonup> 'c list) \<Rightarrow> crawl_error + alias"
  readField ::
    "'c \<Rightarrow> relationInnerConfig \<Rightarrow> string \<Rightarrow> (string \<rightharpoonup> 'c list) \<Rightarrow> crawl_error + address list"
  mergedContract :: "address \<Rightarrow> 'c \<Rightarrow> 'c \<Rightarrow> 'c"

text \<open>
  \<open>discoverNodes\<close>. \<open>config.alias\<close> is tested for truthiness (the empty string is falsy,
  any array is truthy) and \<open>asArray\<close> is \<open>asList\<close>; with an empty array of templates
  \<open>templates[i % templates.length]\<close> is \<open>undefined\<close>.
\<close>

definition discoverNodes ::
  "('b, 'c) collaborators \<Rightarrow> 'c \<Rightarrow> (string \<rightharpoonup> 'c list) \<Rightarrow> relationInnerConfig \<Rightarrow> string
     \<Rightarrow> crawl_error + discoverNode list" where
  "discoverNodes env contract context config defaultKeyAndTemplate =
     (case readField env contract config defaultKeyAndTemplate context of
        Inl e \<Rightarrow> Inl e
      | Inr addresses \<Rightarrow>
          (let templates =
                 (case alias_templates config of
                    None \<Rightarrow> [Str defaultKeyAndTemplate]
                  | Some (One (Str [])) \<Rightarrow> [Str defaultKeyAndTemplate]
                  | Some v \<Rightarrow> asList v)
           in Inr (map (\<lambda>(i, address).
                    \<lparr>node_address = address,
                     node_aliasRender =
                       \<lparr>template = (if templates = [] then Undefined
                                    else templates ! (i mod length templates)),
                        index = i\<rparr>\<rparr>)
                 (enumerate 0 addresses))))"

definition isContract :: "('b, 'c) collaborators \<Rightarrow> address \<Rightarrow> crawl_error + bool" where
  "isContract env address =
     (case getCode env address of Inl e \<Rightarrow> Inl e | Inr code \<Rightarrow> Inr (code \<noteq> ''0x''))"

definition localBuild ::
  "('b, 'c) collaborators \<Rightarrow> string \<Rightarrow> address \<Rightarrow> crawl_error + ('b, 'c) build" where
  "localBuild env artifactName address =
     (case readAndCacheContract env artifactName address of
        Inl e \<Rightarrow> Inl e
      | Inr file \<Rightarrow> Inr \<lparr>buildFile = file, build_contract = getEthersContract env address file\<rparr>)"

definition remoteBuild ::
  "('b, 'c) collaborators \<Rightarrow> address \<Rightarrow> crawl_error + ('b, 'c) build" where
  "remoteBuild env address =
     (case fetchAndCacheContract env address of
        Inl e \<Rightarrow> Inl e
      | Inr file \<Rightarrow> Inr \<lparr>buildFile = file, build_contract = getEthersContract env address file\<rparr>)"

text \<open>
  \<open>crawl\<close> calls itself through \<open>maybeProcess\<close>, with no bound on the depth other than
  the aliases still to discover. The model gives it fuel: \<open>None\<close> is a crawl that has
  not returned within the fuel, \<open>Some (Inl e)\<close> one that threw, \<open>Some (Inr (alias, state))\<close>
  one that returned. The pieces of its body take the recursive call as the argument
  \<open>recurse\<close>. An error leaves no state: \<open>spider\<close> owns the maps and returns them only
  when no crawl threw.
\<close>

type_synonym 'c crawler =
  "discoverNode \<Rightarrow> 'c crawl_state \<Rightarrow> (crawl_error + alias \<times> 'c crawl_state) option"

text \<open>The loop over the delegate nodes in \<open>maybeProcess\<close>, with the variable \<open>contract\<close>.\<close>

fun crawlDelegates ::
  "('b, 'c) collaborators \<Rightarrow> 'c crawler \<Rightarrow> address \<Rightarrow> alias \<Rightarrow> discoverNode list \<Rightarrow> 'c
     \<Rightarrow> 'c crawl_state \<Rightarrow> (crawl_error + 'c \<times> 'c crawl_state) option" where
  "crawlDelegates env recurse address alias [] contract st = Some (Inr (contract, st))"
| "crawlDelegates env recurse address alias (implNode # implNodes) contract st =
     (case recurse implNode st of
        None \<Rightarrow> None
      | Some (Inl e) \<Rightarrow> Some (Inl e)
      | Some (Inr (implAlias, st1)) \<Rightarrow>
          (case cs_contracts st1 implAlias of
             None \<Rightarrow> Some (Inl (FailedToCrawl implAlias (node_address implNode)))
           | Some implContract \<Rightarrow>
               (case maybeStore alias (node_address implNode) (cs_proxies st1) of
                  Inl e \<Rightarrow> Some (Inl e)
                | Inr (stored, proxies') \<Rightarrow>
                    crawlDelegates env recurse address alias implNodes
                      (mergedContract env address implContract contract)
                      (st1\<lparr>cs_proxies := proxies'\<rparr>))))"

text \<open>The loop over the nodes of one relation, and the loop over the relations.\<close>

fun crawlSubNodes ::
  "'c crawler \<Rightarrow> string \<Rightarrow> discoverNode list \<Rightarrow> 'c crawl_state
     \<Rightarrow> (crawl_error + 'c crawl_state) option" where
  "crawlSubNodes recurse subKey [] st = Some (Inr st)"
| "crawlSubNodes recurse subKey (subNode # subNodes) st =
     (case recurse subNode st of
        None \<Rightarrow> None
      | Some (Inl e) \<Rightarrow> Some (Inl e)
      | Some (Inr (subAlias, st1)) \<Rightarrow>
          crawlSubNodes recurse subKey subNodes
            (case cs_contracts st1 subAlias of
               None \<Rightarrow> st1
             | Some subContract \<Rightarrow>
                 st1\<lparr>cs_context := (cs_context st1)
                    (subKey \<mapsto> (case cs_context st1 subKey of None \<Rightarrow> [] | Some found \<Rightarrow> found)
                                @ [subContract])\<rparr>))"

fun crawlRelations ::
  "('b, 'c) collaborators \<Rightarrow> 'c crawler \<Rightarrow> 'c \<Rightarrow> (string \<times> relationInnerConfig) list
     \<Rightarrow> 'c crawl_state \<Rightarrow> (crawl_error + 'c crawl_state) option" where
  "crawlRelations env recurse contract [] st = Some (Inr st)"
| "crawlRelations env recurse contract ((subKey, subConfig) # entries) st =
     (case discoverNodes env contract (cs_context st) subConfig subKey of
        Inl e \<Rightarrow> Some (Inl e)
      | Inr subNodes \<Rightarrow>
          (case crawlSubNodes recurse subKey subNodes st of
             None \<Rightarrow> None
           | Some (Inl e) \<Rightarrow> Some (Inl e)
           | Some (Inr st1) \<Rightarrow> crawlRelations env recurse contract entries st1))"

definition maybeProcess ::
  "('b, 'c) collaborators \<Rightarrow> 'c crawler \<Rightarrow> address \<Rightarrow> alias \<Rightarrow> ('b, 'c) build \<Rightarrow> relationConfig
     \<Rightarrow> 'c crawl_state \<Rightarrow> (crawl_error + alias \<times> 'c crawl_state) option" where
  "maybeProcess env recurse address alias build config st =
     (case maybeStore alias address (cs_aliases st) of
        Inl e \<Rightarrow> Some (Inl e)
      | Inr (stored, aliases') \<Rightarrow>
          if stored then
            (case (case delegates config of
                     None \<Rightarrow> Some (Inr (build_contract build, st\<lparr>cs_aliases := aliases'\<rparr>))
                   | Some delegatesConfig \<Rightarrow>
                       (case discoverNodes env (build_contract build) (cs_context st)
                               delegatesConfig (alias @ '':implementation'') of
                          Inl e \<Rightarrow> Some (Inl e)
                        | Inr implNodes \<Rightarrow>
                            crawlDelegates env recurse address alias implNodes
                              (build_contract build) (st\<lparr>cs_aliases := aliases'\<rparr>))) of
               None \<Rightarrow> None
             | Some (Inl e) \<Rightarrow> Some (Inl e)
             | Some (Inr (contract, st1)) \<Rightarrow>
                 (case (case relations config of
                          None \<Rightarrow> Some (Inr (st1\<lparr>cs_contracts := (cs_contracts st1)(alias \<mapsto> contract)\<rparr>))
                        | Some entries \<Rightarrow>
                            crawlRelations env recurse contract entries
                              (st1\<lparr>cs_contracts := (cs_contracts st1)(alias \<mapsto> contract)\<rparr>)) of
                    None \<Rightarrow> None
                  | Some (Inl e) \<Rightarrow> Some (Inl e)
                  | Some (Inr st2) \<Rightarrow> Some (Inr (alias, st2))))
          else Some (Inr (alias, st)))"

text \<open>
  The body of \<open>crawl\<close>. \<open>relations[build.buildFile.contract] || {}\<close> is the config found or
  the empty one; \<open>aliasConfig.artifact\<close> is tested for truthiness.
\<close>

definition crawl_body ::
  "('b, 'c) collaborators \<Rightarrow> (string \<rightharpoonup> relationConfig) \<Rightarrow> 'c crawler \<Rightarrow> 'c crawler" where
  "crawl_body env relationMap recurse node st =
     (let aliasTemplate = template (node_aliasRender node); address = node_address node in
      case relationMap (aliasTemplateKey env aliasTemplate) of
        Some aliasConfig \<Rightarrow>
          (case isContract env address of
             Inl e \<Rightarrow> Some (Inl e)
           | Inr False \<Rightarrow> Some (Inl (ConfigButNoContract aliasTemplate address))
           | Inr True \<Rightarrow>
               (case (case artifact aliasConfig of
                        None \<Rightarrow> remoteBuild env address
                      | Some artifactName \<Rightarrow>
                          if artifactName \<noteq> [] then localBuild env artifactName address
                          else remoteBuild env address) of
                  Inl e \<Rightarrow> Some (Inl e)
                | Inr build \<Rightarrow>
                    (case readAlias env (Some (build_contract build)) (node_aliasRender node)
                            (cs_context st) of
                       Inl e \<Rightarrow> Some (Inl e)
                     | Inr alias \<Rightarrow> maybeProcess env recurse address alias build aliasConfig st)))
      | None \<Rightarrow>
          (case isContract env address of
             Inl e \<Rightarrow> Some (Inl e)
           | Inr True \<Rightarrow>
               (case remoteBuild env address of
                  Inl e \<Rightarrow> Some (Inl e)
                | Inr build \<Rightarrow>
                    (case readAlias env (Some (build_contract build)) (node_aliasRender node)
                            (cs_context st) of
                       Inl e \<Rightarrow> Some (Inl e)
                     | Inr alias \<Rightarrow>
                         maybeProcess env recurse address alias build
                           (case relationMap (contractName env (buildFile build)) of
                              Some contractConfig \<Rightarrow> contractConfig
                            | None \<Rightarrow> \<lparr>artifact = None, delegates = None, relations = None\<rparr>)
                           st))
           | Inr False \<Rightarrow>
               (case readAlias env None (node_aliasRender node) (cs_context st) of
                  Inl e \<Rightarrow> Some (Inl e)
                | Inr alias \<Rightarrow>
                    (case maybeStore alias address (cs_aliases st) of
                       Inl e \<Rightarrow> Some (Inl e)
                     | Inr (stored, aliases') \<Rightarrow> Some (Inr (alias, st\<lparr>cs_aliases := aliases'\<rparr>))))))"

fun crawl ::
  "nat \<Rightarrow> ('b, 'c) collaborators \<Rightarrow> (string \<rightharpoonup> relationConfig) \<Rightarrow> 'c crawler" where
  "crawl 0 env relationMap node st = None"
| "crawl (Suc fuel) env relationMap node st =
     crawl_body env relationMap (crawl fuel env relationMap) node st"

text \<open>\<open>spider\<close>: one crawl per root, in the order of the map, on maps that start empty.\<close>

fun crawlRoots ::
  "'c crawler \<Rightarrow> (alias \<times> address) list \<Rightarrow> 'c crawl_state \<Rightarrow> (crawl_error + 'c crawl_state) option" where
  "crawlRoots recurse [] st = Some (Inr st)"
| "crawlRoots recurse ((alias, address) # roots) st =
     (case recurse \<lparr>node_address = address,
                     node_aliasRender = \<lparr>template = Str alias, index = 0\<rparr>\<rparr> st of
        None \<Rightarrow> None
      | Some (Inl e) \<Rightarrow> Some (Inl e)
      | Some (Inr (found, st1)) \<Rightarrow> crawlRoots recurse roots st1)"

definition spider ::
  "nat \<Rightarrow> ('b, 'c) collaborators \<Rightarrow> (string \<rightharpoonup> relationConfig) \<Rightarrow> (alias \<times> address) list
     \<Rightarrow> (crawl_error + (alias \<rightharpoonup> address) \<times> (alias \<rightharpoonup> address)) option" where
  "spider fuel env relationMap roots =
     (case crawlRoots (crawl fuel env relationMap) roots
             \<lparr>cs_context = Map.empty, cs_aliases = Map.empty, cs_proxies = Map.empty,
              cs_contracts = Map.empty\<rparr> of
        None \<Rightarrow> None
      | Some (Inl e) \<Rightarrow> Some (Inl e)
      | Some (Inr st) \<Rightarrow> Some (Inr (cs_aliases st, cs_proxies st)))"

text \<open>
  A crawler keeps the proxies when a crawl that returns leaves every binding of the
  proxy store to a non-empty address as it found it.
\<close>

definition keeps_proxies :: "'c crawler \<Rightarrow> bool" where
  "keeps_proxies recurse \<longleftrightarrow>
     (\<forall>node st found st' p d.
        recurse node st = Some (Inr (found, st')) \<longrightarrow> cs_proxies st p = Some d \<longrightarrow> d \<noteq> []
          \<longrightarrow> cs_proxies st' p = Some d)"

subsection \<open>An example chain\<close>

text \<open>
  A chain to run the crawl on. A contract handle is the contract's address and a build
  file is its contract name. There is code at \<open>0xP\<close>, \<open>0xA\<close> and \<open>0xB\<close>; the proxy at \<open>0xP\<close>
  reports the two delegates \<open>0xA\<close> and \<open>0xB\<close>; aliases are read off the template, with the
  index appended when it is not zero. The relation config knows \<open>comet\<close>, which has
  delegates, and \<open>rewards\<close>.
\<close>

definition example_chain :: "(string, string) collaborators" where
  "example_chain =
     \<lparr>getCode = (\<lambda>address. Inr (if address \<in> {''0xP'', ''0xA'', ''0xB''} then ''0x6080'' else ''0x'')),
      readAndCacheContract = (\<lambda>artifactName address. Inr artifactName),
      fetchAndCacheContract = (\<lambda>address. Inr ''Unverified''),
      getEthersContract = (\<lambda>address file. address),
      contractName = (\<lambda>file. file),
      aliasTemplateKey = (\<lambda>t. case t of Str s \<Rightarrow> s | Fn name \<Rightarrow> name | Undefined \<Rightarrow> ''undefined''),
      readAlias = (\<lambda>contract render context.
        case template render of
          Str s \<Rightarrow> Inr (if index render = 0 then s else s @ '':more'')
        | Fn name \<Rightarrow> Inr name
        | Undefined \<Rightarrow> Inl (Collaborator ''no template'')),
      readField = (\<lambda>contract config key context.
        Inr (if contract = ''0xP'' \<and> key = ''comet:implementation'' then [''0xA'', ''0xB''] else [])),
      mergedContract = (\<lambda>address implContract contract. address)\<rparr>"

definition example_relations :: "string \<rightharpoonup> relationConfig" where
  "example_relations =
     [''comet'' \<mapsto> \<lparr>artifact = None,
                     delegates = Some \<lparr>field = None, alias_templates = None\<rparr>,
                     relations = None\<rparr>,
      ''rewards'' \<mapsto> \<lparr>artifact = None, delegates = None, relations = None\<rparr>]"

text \<open>
  The same chain with relations to follow: the contract at \<open>0xP\<close> reports \<open>0xA\<close> as its
  \<open>baseToken\<close> and \<open>0xB\<close> and \<open>0xE\<close> as its \<open>rewards\<close>; there is no code at \<open>0xE\<close>. The relation
  config of \<open>comet\<close> follows both fields.
\<close>

definition example_nested_chain :: "(string, string) collaborators" where
  "example_nested_chain =
     example_chain
       \<lparr>readField := (\<lambda>contract config key context.
          Inr (if contract = ''0xP'' \<and> key = ''baseToken'' then [''0xA'']
               else if contract = ''0xP'' \<and> key = ''rewards'' then [''0xB'', ''0xE'']
               else []))\<rparr>"

definition example_nested_relations :: "string \<rightharpoonup> relationConfig" where
  "example_nested_relations =
     [''comet'' \<mapsto> \<lparr>artifact = None,
                     delegates = None,
                     relations = Some [(''baseToken'', \<lparr>field = None, alias_templates = None\<rparr>),
                                       (''rewards'', \<lparr>field = None, alias_templates = None\<rparr>)]\<rparr>,
      ''rewards'' \<mapsto> \<lparr>artifact = None, delegates = None, relations = None\<rparr>]"

section \<open>Deployment manager: retry and idempotent (DeploymentManager.ts)\<close>

text \<open>
  \<open>retry(fn, retries = 5, timeLimit, wait = 250)\<close>. The manager and everything the operation
  can touch is the state \<open>'s\<close>; \<open>fn s\<close> is what \<open>asyncCallWithTimeout(fn(), timeLimit)\<close>
  returned (\<open>Inr\<close>) or threw (\<open>Inl\<close>, the operation's own error or the timeout's) and the
  state it left. \<open>reset\<close> is \<open>resetSignersPendingCounts\<close>. \<open>retries\<close> is a count
  (``the number of times to retry the function''), so a natural number; the waiting
  time is doubled and passed on, and has no other effect here.
\<close>

fun retry ::
  "('s \<Rightarrow> 's) \<Rightarrow> ('s \<Rightarrow> ('e + 'a) \<times> 's) \<Rightarrow> nat \<Rightarrow> nat \<Rightarrow> 's \<Rightarrow> ('e + 'a) \<times> 's" where
  "retry reset fn 0 wait s =
     (case fn s of
        (Inr v, s') \<Rightarrow> (Inr v, s')
      | (Inl e, s') \<Rightarrow> (Inl e, s'))"
| "retry reset fn (Suc retries) wait s =
     (case fn s of
        (Inr v, s') \<Rightarrow> (Inr v, s')
      | (Inl e, s') \<Rightarrow> retry reset fn retries (wait * 2) (reset s'))"

text \<open>A call that leaves \<open>retries\<close> out (\<open>undefined\<close>) gets the default parameters.\<close>

definition retry_with_defaults ::
  "('s \<Rightarrow> 's) \<Rightarrow> ('s \<Rightarrow> ('e + 'a) \<times> 's) \<Rightarrow> nat option \<Rightarrow> 's \<Rightarrow> ('e + 'a) \<times> 's" where
  "retry_with_defaults reset fn retries s =
     retry reset fn (case retries of None \<Rightarrow> 5 | Some r \<Rightarrow> r) 250 s"

text \<open>
  \<open>idempotent(condition, action, retries)\<close>: \<open>condition\<close> yields a value tested for
  truthiness; when it is falsy the method returns \<open>undefined\<close> (\<open>None\<close>).
\<close>

definition idempotent ::
  "('s \<Rightarrow> 's) \<Rightarrow> ('s \<Rightarrow> ('e + bool) \<times> 's) \<Rightarrow> ('s \<Rightarrow> ('e + 'a) \<times> 's) \<Rightarrow> nat option
     \<Rightarrow> 's \<Rightarrow> ('e + 'a option) \<times> 's" where
  "idempotent reset condition action retries s =
     (case condition s of
        (Inl e, s') \<Rightarrow> (Inl e, s')
      | (Inr c, s') \<Rightarrow>
          if c then
            (case retry_with_defaults reset action retries s' of
               (Inl e, s'') \<Rightarrow> (Inl e, s'')
             | (Inr v, s'') \<Rightarrow> (Inr (Some v), s''))
          else (Inr None, s'))"

text \<open>
  Vocabulary for the retry claims. \<open>attempt_state reset fn s k\<close> is the state in which
  invocation \<open>k + 1\<close> of \<open>fn\<close> takes place when every earlier one failed: each failure is
  followed by a reset. \<open>counting fn\<close> is \<open>fn\<close> with a counter of its invocations beside
  the state, which \<open>keeping reset\<close> leaves alone.
\<close>

fun attempt_state :: "('s \<Rightarrow> 's) \<Rightarrow> ('s \<Rightarrow> ('e + 'a) \<times> 's) \<Rightarrow> 's \<Rightarrow> nat \<Rightarrow> 's" where
  "attempt_state reset fn s 0 = s"
| "attempt_state reset fn s (Suc k) = reset (snd (fn (attempt_state reset fn s k)))"

definition counting :: "('s \<Rightarrow> ('e + 'a) \<times> 's) \<Rightarrow> 's \<times> nat \<Rightarrow> ('e + 'a) \<times> ('s \<times> nat)" where
  "counting fn = (\<lambda>(s, n). (fst (fn s), (snd (fn s), Suc n)))"

definition keeping :: "('s \<Rightarrow> 's) \<Rightarrow> 's \<times> nat \<Rightarrow> 's \<times> nat" where
  "keeping reset = (\<lambda>(s, n). (reset s, n))"

text \<open>\<open>uncounted fn\<close> is \<open>fn\<close> beside that counter, which it leaves alone.\<close>

definition uncounted :: "('s \<Rightarrow> ('e + 'a) \<times> 's) \<Rightarrow> 's \<times> nat \<Rightarrow> ('e + 'a) \<times> ('s \<times> nat)" where
  "uncounted fn = (\<lambda>(s, n). (fst (fn s), (snd (fn s), n)))"

section \<open>Deployment manager: deploy, clone and existing (DeploymentManager.ts)\<close>

text \<open>
  The field \<open>contractsCache\<close> holds \<open>null\<close>, \<open>undefined\<close> or a contract map: the constructor
  sets it to \<open>null\<close>, and the manager's \<open>spider\<close> sets it to \<open>crawl.contracts\<close>, a property that
  the object \<open>{ aliases, proxies }\<close> returned by \<open>spider\<close> of Spider.ts does not have.
\<close>

datatype 'c cached = Null | Undefined | Loaded "alias \<rightharpoonup> 'c"

text \<open>
  The manager's fields that the three methods read or write: the \<open>counter\<close>, the
  \<open>contractsCache\<close>, the managed \<open>_signers\<close>, the two import settings of \<open>config\<close>, and, behind
  \<open>cache\<close>, the roots, aliases and proxies it keeps; \<open>outside\<close> is everything else the
  collaborators touch (the network, the importer's files).
\<close>

record ('c, 'sg, 'k) manager =
  counter :: nat
  contractsCache :: "'c cached"
  signers :: "'sg list"
  config_importRetries :: "nat option"
  config_importRetryDelay :: "nat option"
  storedRoots :: "(alias \<times> address) list"
  storedAliases :: "alias \<rightharpoonup> address"
  storedProxies :: "alias \<rightharpoonup> address"
  outside :: 'k

text \<open>
  The constructor, given the import settings of \<open>config\<close> and what the new \<open>Cache\<close> and the
  network hold.
\<close>

definition new_manager ::
  "nat option \<Rightarrow> nat option \<Rightarrow> (alias \<times> address) list \<Rightarrow> (alias \<rightharpoonup> address)
     \<Rightarrow> (alias \<rightharpoonup> address) \<Rightarrow> 'k \<Rightarrow> ('c, 'sg, 'k) manager" where
  "new_manager retries delay roots aliases proxies world =
     \<lparr>counter = 0,
      contractsCache = Null,
      signers = [],
      config_importRetries = retries,
      config_importRetryDelay = delay,
      storedRoots = roots,
      storedAliases = aliases,
      storedProxies = proxies,
      outside = world\<rparr>"

text \<open>
  What is thrown: a \<open>TypeError\<close>, when a method is called on the contract map while it
  is \<open>null\<close> or \<open>undefined\<close>; what the crawl threw; or whatever a collaborator raised.
\<close>

datatype 'x thrown = TypeError | Crawl crawl_error | Raised 'x

text \<open>
  The collaborators, none of them among the sources: \<open>hre.ethers.getSigners\<close> followed by
  \<open>getManagedSigner\<close>; a signer's \<open>_reset\<close>; a contract's \<open>connect\<close> and \<open>address\<close>; \<open>deploy\<close> and
  \<open>deployBuild\<close> of Deploy.ts, given the signer of the deploy options; the importer
  \<open>fetchAndCacheContract\<close> with its retries and delay; \<open>getEthersContract\<close>; what the crawl
  reads; and the relation config map that \<open>getRelationConfig\<close> returns.
\<close>

record ('args, 'b, 'c, 'sg, 'k, 'x) deployment =
  hreGetSigners :: "'k \<Rightarrow> 'x thrown + 'sg list"
  resetSigner :: "'sg \<Rightarrow> 'sg"
  connect :: "'c \<Rightarrow> 'sg option \<Rightarrow> 'c"
  addressOf :: "'c \<Rightarrow> address"
  deployArtifact :: "string \<Rightarrow> 'args \<Rightarrow> 'sg option \<Rightarrow> 'k \<Rightarrow> ('x thrown + 'c) \<times> 'k"
  deployBuildFile :: "'b \<Rightarrow> 'args \<Rightarrow> 'sg option \<Rightarrow> 'k \<Rightarrow> ('x thrown + 'c) \<times> 'k"
  fetchAndCache :: "string \<Rightarrow> address \<Rightarrow> nat \<Rightarrow> nat \<Rightarrow> 'k \<Rightarrow> ('x thrown + 'b) \<times> 'k"
  ethersContract :: "address \<Rightarrow> 'b \<Rightarrow> 'c"
  crawling :: "('b, 'c) collaborators"
  relationConfigMap :: "string \<rightharpoonup> relationConfig"

definition getSigners ::
  "('args, 'b, 'c, 'sg, 'k, 'x) deployment \<Rightarrow> ('c, 'sg, 'k) manager
     \<Rightarrow> ('x thrown + 'sg list) \<times> ('c, 'sg, 'k) manager" where
  "getSigners env m =
     (if length (signers m) > 0 then (Inr (signers m), m)
      else (case hreGetSigners env (outside m) of
              Inl e \<Rightarrow> (Inl e, m)
            | Inr managed \<Rightarrow> (Inr managed, m\<lparr>signers := managed\<rparr>)))"

text \<open>\<open>getSigner()\<close> with no address: the first signer, \<open>undefined\<close> when there is none.\<close>

definition getSigner ::
  "('args, 'b, 'c, 'sg, 'k, 'x) deployment \<Rightarrow> ('c, 'sg, 'k) manager
     \<Rightarrow> ('x thrown + 'sg option) \<times> ('c, 'sg, 'k) manager" where
  "getSigner env m =
     (case getSigners env m of
        (Inl e, m') \<Rightarrow> (Inl e, m')
      | (Inr found, m') \<Rightarrow> (Inr (case found of [] \<Rightarrow> None | first # _ \<Rightarrow> Some first), m'))"

definition resetSignersPendingCounts ::
  "('args, 'b, 'c, 'sg, 'k, 'x) deployment \<Rightarrow> ('c, 'sg, 'k) manager \<Rightarrow> ('c, 'sg, 'k) manager" where
  "resetSignersPendingCounts env m = m\<lparr>signers := map (resetSigner env) (signers m)\<rparr>"

text \<open>\<open>deployOpts()\<close>: of the options, the signer to connect; the rest is in the manager.\<close>

definition deployOpts ::
  "('args, 'b, 'c, 'sg, 'k, 'x) deployment \<Rightarrow> ('c, 'sg, 'k) manager
     \<Rightarrow> ('x thrown + 'sg option) \<times> ('c, 'sg, 'k) manager" where
  "deployOpts env m = getSigner env m"

definition importRetries :: "('c, 'sg, 'k) manager \<Rightarrow> nat" where
  "importRetries m = (case config_importRetries m of Some n \<Rightarrow> n | None \<Rightarrow> 4)"

definition importRetryDelay :: "('c, 'sg, 'k) manager \<Rightarrow> nat" where
  "importRetryDelay m = (case config_importRetryDelay m of Some n \<Rightarrow> n | None \<Rightarrow> 5000)"

text \<open>\<open>import(address, network)\<close>\<close>

definition dm_import ::
  "('args, 'b, 'c, 'sg, 'k, 'x) deployment \<Rightarrow> address \<Rightarrow> string \<Rightarrow> ('c, 'sg, 'k) manager
     \<Rightarrow> ('x thrown + 'b) \<times> ('c, 'sg, 'k) manager" where
  "dm_import env address network m =
     (case fetchAndCache env network address (importRetries m) (importRetryDelay m) (outside m) of
        (outcome, outside') \<Rightarrow> (outcome, m\<lparr>outside := outside'\<rparr>))"

text \<open>
  \<open>new Map(entries)\<close>: an entry whose key is already there replaces the value in place, a
  new key goes to the end.
\<close>

definition newMap :: "('a \<times> 'v) list \<Rightarrow> ('a \<times> 'v) list" where
  "newMap entries =
     fold (\<lambda>(k, v) acc.
             if k \<in> fst ` set acc then map (\<lambda>(k', v'). if k' = k then (k', v) else (k', v')) acc
             else acc @ [(k, v)])
          entries []"

text \<open>
  Modelled from the spec: \<open>getRoots\<close> and \<open>putRoots\<close> of Roots.ts, \<open>storeAliases\<close> of
  Aliases.ts and \<open>storeProxies\<close> of Proxies.ts (not among the sources) read and replace
  the whole collection kept through the cache.
\<close>

definition getRoots :: "('c, 'sg, 'k) manager \<Rightarrow> (alias \<times> address) list" where
  "getRoots m = storedRoots m"

definition putRoots :: "(alias \<times> address) list \<Rightarrow> ('c, 'sg, 'k) manager \<Rightarrow> ('c, 'sg, 'k) manager" where
  "putRoots roots m = m\<lparr>storedRoots := roots\<rparr>"

definition storeAliases :: "(alias \<rightharpoonup> address) \<Rightarrow> ('c, 'sg, 'k) manager \<Rightarrow> ('c, 'sg, 'k) manager" where
  "storeAliases aliases m = m\<lparr>storedAliases := aliases\<rparr>"

definition storeProxies :: "(alias \<rightharpoonup> address) \<Rightarrow> ('c, 'sg, 'k) manager \<Rightarrow> ('c, 'sg, 'k) manager" where
  "storeProxies proxies m = m\<lparr>storedProxies := proxies\<rparr>"

text \<open>
  The manager's \<open>spider(deployed)\<close>, with the entries of \<open>deployed\<close> in the order of
  \<open>Object.entries\<close>. It runs the crawl of Spider.ts, which takes fuel, and returns what
  that returned, the alias and the proxy store; \<open>crawl.contracts\<close> is \<open>undefined\<close>.
\<close>

definition dm_spider ::
  "nat \<Rightarrow> ('args, 'b, 'c, 'sg, 'k, 'x) deployment \<Rightarrow> (alias \<times> 'c) list \<Rightarrow> ('c, 'sg, 'k) manager
     \<Rightarrow> (('x thrown + (alias \<rightharpoonup> address) \<times> (alias \<rightharpoonup> address)) \<times> ('c, 'sg, 'k) manager) option"
  where
  "dm_spider fuel env deployed m =
     (let roots = newMap (getRoots m @ map (\<lambda>(a, c). (a, addressOf env c)) deployed) in
      case spider fuel (crawling env) (relationConfigMap env) roots of
        None \<Rightarrow> None
      | Some (Inl e) \<Rightarrow> Some (Inl (Crawl e), m)
      | Some (Inr (aliases, proxies)) \<Rightarrow>
          Some (Inr (aliases, proxies),
                (storeProxies proxies (storeAliases aliases (putRoots roots m)))
                  \<lparr>contractsCache := Undefined\<rparr>))"

text \<open>
  \<open>contracts()\<close> runs the spider when the field is \<open>null\<close>, and only then; \<open>contract(alias)\<close>
  calls \<open>get\<close> on what \<open>contracts()\<close> returned.
\<close>

definition dm_contracts ::
  "nat \<Rightarrow> ('args, 'b, 'c, 'sg, 'k, 'x) deployment \<Rightarrow> ('c, 'sg, 'k) manager
     \<Rightarrow> (('x thrown + 'c cached) \<times> ('c, 'sg, 'k) manager) option" where
  "dm_contracts fuel env m =
     (case contractsCache m of
        Null \<Rightarrow>
          (case dm_spider fuel env [] m of
             None \<Rightarrow> None
           | Some (Inl e, m') \<Rightarrow> Some (Inl e, m')
           | Some (Inr crawled, m') \<Rightarrow> Some (Inr (contractsCache m'), m'))
      | Undefined \<Rightarrow> Some (Inr Undefined, m)
      | Loaded found \<Rightarrow> Some (Inr (Loaded found), m))"

definition dm_contract ::
  "nat \<Rightarrow> ('args, 'b, 'c, 'sg, 'k, 'x) deployment \<Rightarrow> alias \<Rightarrow> ('c, 'sg, 'k) manager
     \<Rightarrow> (('x thrown + 'c option) \<times> ('c, 'sg, 'k) manager) option" where
  "dm_contract fuel env alias m =
     (case dm_contracts fuel env m of
        None \<Rightarrow> None
      | Some (Inl e, m') \<Rightarrow> Some (Inl e, m')
      | Some (Inr Null, m') \<Rightarrow> Some (Inl TypeError, m')
      | Some (Inr Undefined, m') \<Rightarrow> Some (Inl TypeError, m')
      | Some (Inr (Loaded found), m') \<Rightarrow>
          (case found alias of
             None \<Rightarrow> Some (Inr None, m')
           | Some contract \<Rightarrow>
               (case getSigner env m' of
                  (Inl e, m'') \<Rightarrow> Some (Inl e, m'')
                | (Inr signer, m'') \<Rightarrow> Some (Inr (Some (connect env contract signer)), m''))))"

text \<open>
  Modelled from the spec: \<open>putAlias\<close> of Aliases.ts (not among the sources) sets the alias
  to the address in the alias store kept through the cache.
\<close>

definition aliases_putAlias :: "alias \<Rightarrow> address \<Rightarrow> ('c, 'sg, 'k) manager \<Rightarrow> ('c, 'sg, 'k) manager" where
  "aliases_putAlias a address m = m\<lparr>storedAliases := (storedAliases m)(a \<mapsto> address)\<rparr>"

text \<open>
  The manager's \<open>putAlias(alias, contract)\<close>: it stores the alias, then calls \<open>set\<close> on the
  contract map.
\<close>

definition putAlias ::
  "('args, 'b, 'c, 'sg, 'k, 'x) deployment \<Rightarrow> alias \<Rightarrow> 'c \<Rightarrow> ('c, 'sg, 'k) manager
     \<Rightarrow> ('x thrown + unit) \<times> ('c, 'sg, 'k) manager" where
  "putAlias env a contract m =
     (let m' = aliases_putAlias a (addressOf env contract) m in
      case contractsCache m' of
        Null \<Rightarrow> (Inl TypeError, m')
      | Undefined \<Rightarrow> (Inl TypeError, m')
      | Loaded found \<Rightarrow> (Inr (), m'\<lparr>contractsCache := Loaded (found(a \<mapsto> contract))\<rparr>))"

text \<open>\<open>_deploy\<close> and \<open>_deployBuild\<close>\<close>

definition deploy_internal ::
  "('args, 'b, 'c, 'sg, 'k, 'x) deployment \<Rightarrow> string \<Rightarrow> 'args \<Rightarrow> nat option \<Rightarrow> ('c, 'sg, 'k) manager
     \<Rightarrow> ('x thrown + 'c) \<times> ('c, 'sg, 'k) manager" where
  "deploy_internal env contractFile deployArgs retries m =
     (case retry_with_defaults (resetSignersPendingCounts env)
             (\<lambda>m. case deployOpts env m of
                     (Inl e, m') \<Rightarrow> (Inl e, m')
                   | (Inr signer, m') \<Rightarrow>
                       (case deployArtifact env contractFile deployArgs signer (outside m') of
                          (outcome, outside') \<Rightarrow> (outcome, m'\<lparr>outside := outside'\<rparr>)))
             retries m of
        (Inl e, m') \<Rightarrow> (Inl e, m')
      | (Inr contract, m') \<Rightarrow> (Inr contract, m'\<lparr>counter := counter m' + 1\<rparr>))"

definition deployBuild_internal ::
  "('args, 'b, 'c, 'sg, 'k, 'x) deployment \<Rightarrow> 'b \<Rightarrow> 'args \<Rightarrow> nat option \<Rightarrow> ('c, 'sg, 'k) manager
     \<Rightarrow> ('x thrown + 'c) \<times> ('c, 'sg, 'k) manager" where
  "deployBuild_internal env file deployArgs retries m =
     (case retry_with_defaults (resetSignersPendingCounts env)
             (\<lambda>m. case deployOpts env m of
                     (Inl e, m') \<Rightarrow> (Inl e, m')
                   | (Inr signer, m') \<Rightarrow>
                       (case deployBuildFile env file deployArgs signer (outside m') of
                          (outcome, outside') \<Rightarrow> (outcome, m'\<lparr>outside := outside'\<rparr>)))
             retries m of
        (Inl e, m') \<Rightarrow> (Inl e, m')
      | (Inr contract, m') \<Rightarrow> (Inr contract, m'\<lparr>counter := counter m' + 1\<rparr>))"

text \<open>
  \<open>clone\<close>, \<open>deploy\<close> and \<open>existing\<close>. \<open>force\<close> is a boolean or left out, which is falsy;
  \<open>!maybeExisting\<close> holds when the lookup found nothing. The block guarded by
  \<open>!maybeExisting || force\<close> is bound to a name and used in the two cases that reach it.
\<close>

definition clone ::
  "nat \<Rightarrow> ('args, 'b, 'c, 'sg, 'k, 'x) deployment \<Rightarrow> alias \<Rightarrow> address \<Rightarrow> 'args \<Rightarrow> string \<Rightarrow> bool
     \<Rightarrow> nat option \<Rightarrow> ('c, 'sg, 'k) manager
     \<Rightarrow> (('x thrown + 'c) \<times> ('c, 'sg, 'k) manager) option" where
  "clone fuel env alias address deployArgs fromNetwork force retries m =
     (case dm_contract fuel env alias m of
        None \<Rightarrow> None
      | Some (Inl e, m1) \<Rightarrow> Some (Inl e, m1)
      | Some (Inr maybeExisting, m1) \<Rightarrow>
          (let cloned =
                 (case dm_import env address fromNetwork m1 of
                    (Inl e, m2) \<Rightarrow> (Inl e, m2)
                  | (Inr file, m2) \<Rightarrow>
                      (case deployBuild_internal env file deployArgs retries m2 of
                         (Inl e, m3) \<Rightarrow> (Inl e, m3)
                       | (Inr contract, m3) \<Rightarrow>
                           (case putAlias env alias contract m3 of
                              (Inl e, m4) \<Rightarrow> (Inl e, m4)
                            | (Inr _, m4) \<Rightarrow> (Inr contract, m4))))
           in case maybeExisting of
                None \<Rightarrow> Some cloned
              | Some found \<Rightarrow> if force then Some cloned else Some (Inr found, m1)))"

definition deploy ::
  "nat \<Rightarrow> ('args, 'b, 'c, 'sg, 'k, 'x) deployment \<Rightarrow> alias \<Rightarrow> string \<Rightarrow> 'args \<Rightarrow> bool
     \<Rightarrow> nat option \<Rightarrow> ('c, 'sg, 'k) manager
     \<Rightarrow> (('x thrown + 'c) \<times> ('c, 'sg, 'k) manager) option" where
  "deploy fuel env alias contractFile deployArgs force retries m =
     (case dm_contract fuel env alias m of
        None \<Rightarrow> None
      | Some (Inl e, m1) \<Rightarrow> Some (Inl e, m1)
      | Some (Inr maybeExisting, m1) \<Rightarrow>
          (let deployed =
                 (case deploy_internal env contractFile deployArgs retries m1 of
                    (Inl e, m2) \<Rightarrow> (Inl e, m2)
                  | (Inr contract, m2) \<Rightarrow>
                      (case putAlias env alias contract m2 of
                         (Inl e, m3) \<Rightarrow> (Inl e, m3)
                       | (Inr _, m3) \<Rightarrow> (Inr contract, m3)))
           in case maybeExisting of
                None \<Rightarrow> Some deployed
              | Some found \<Rightarrow> if force then Some deployed else Some (Inr found, m1)))"

definition existing ::
  "nat \<Rightarrow> ('args, 'b, 'c, 'sg, 'k, 'x) deployment \<Rightarrow> alias \<Rightarrow> address \<Rightarrow> ('c, 'sg, 'k) manager
     \<Rightarrow> (('x thrown + 'c) \<times> ('c, 'sg, 'k) manager) option" where
  "existing fuel env alias address m =
     (case dm_contract fuel env alias m of
        None \<Rightarrow> None
      | Some (Inl e, m1) \<Rightarrow> Some (Inl e, m1)
      | Some (Inr maybeExisting, m1) \<Rightarrow>
          (case maybeExisting of
             None \<Rightarrow>
               (case dm_import env address ''mainnet'' m1 of
                  (Inl e, m2) \<Rightarrow> Some (Inl e, m2)
                | (Inr file, m2) \<Rightarrow>
                    (case putAlias env alias (ethersContract env address file) m2 of
                       (Inl e, m3) \<Rightarrow> Some (Inl e, m3)
                     | (Inr _, m3) \<Rightarrow> Some (Inr (ethersContract env address file), m3)))
           | Some found \<Rightarrow> Some (Inr found, m1)))"

subsection \<open>An example deployment\<close>

text \<open>
  A deployment to run the three methods on, over the example chain. A contract handle
  is the contract's address; the outside is the number of contracts deployed so far;
  the one signer is \<open>admin\<close>.
\<close>

definition example_deployment ::
  "(unit, string, string, string, nat, string) deployment" where
  "example_deployment =
     \<lparr>hreGetSigners = (\<lambda>deployed. Inr [''admin'']),
      resetSigner = (\<lambda>signer. signer),
      connect = (\<lambda>contract signer. contract),
      addressOf = (\<lambda>contract. contract),
      deployArtifact = (\<lambda>contractFile deployArgs signer deployed. (Inr ''0xnew'', Suc deployed)),
      deployBuildFile = (\<lambda>file deployArgs signer deployed. (Inr ''0xcloned'', Suc deployed)),
      fetchAndCache = (\<lambda>network address retries delay deployed. (Inr ''Build'', deployed)),
      ethersContract = (\<lambda>address file. address),
      crawling = example_chain,
      relationConfigMap = example_relations\<rparr>"

text \<open>
  The manager as constructed, with the default import settings, when the cache holds
  the root \<open>rewards\<close> at \<open>0xB\<close> and nothing has been deployed.
\<close>

definition example_manager :: "(string, string, nat) manager" where
  "example_manager =
     new_manager None None [(''rewards'', ''0xB'')] Map.empty Map.empty 0"

section \<open>Properties\<close>

lemma maybeStore_keeps:
  assumes "into b = Some y" "y \<noteq> []" "maybeStore a x into = Inr (r, into')"
  shows "into' b = Some y"
  using assms by (auto simp: maybeStore_def split: option.splits if_splits)

text \<open>
  C3. Storing an alias in an alias-to-address store (addresses are non-empty strings):
  bound to the same address, the store is returned as it was; bound to another address,
  the call throws; unbound, the pair is inserted. A store that accepted a call keeps
  every binding it had, so an alias names one address during a crawl.
\<close>

theorem maybeStore_cases:
  "(into a = Some x \<and> x \<noteq> [] \<longrightarrow> maybeStore a x into = Inr (False, into)) \<and>
   (into a = Some y \<and> y \<noteq> [] \<and> y \<noteq> x \<longrightarrow> maybeStore a x into = Inl (AliasConflict a y x)) \<and>
   (into a = None \<longrightarrow> maybeStore a x into = Inr (True, into(a \<mapsto> x))) \<and>
   (\<forall>b z r into'. into b = Some z \<and> z \<noteq> [] \<and> maybeStore a x into = Inr (r, into')
      \<longrightarrow> into' b = Some z)"
  by (auto simp: maybeStore_def split: option.splits if_splits)

theorem maybeStore_cases_witness:
  "maybeStore ''comet'' ''0xc3'' [''comet'' \<mapsto> ''0xc3''] = Inr (False, [''comet'' \<mapsto> ''0xc3'']) \<and>
   maybeStore ''comet'' ''0xd4'' [''comet'' \<mapsto> ''0xc3''] = Inl (AliasConflict ''comet'' ''0xc3'' ''0xd4'') \<and>
   maybeStore ''rewards'' ''0xd4'' [''comet'' \<mapsto> ''0xc3'']
     = Inr (True, [''comet'' \<mapsto> ''0xc3'', ''rewards'' \<mapsto> ''0xd4'']) \<and>
   ([''comet'' \<mapsto> ''0xc3'', ''rewards'' \<mapsto> ''0xd4'']) ''comet'' = Some ''0xc3''"
proof -
  let ?m = "[''comet'' \<mapsto> ''0xc3'']"
  have same: "maybeStore ''comet'' ''0xc3'' ?m = Inr (False, ?m)"
    using maybeStore_cases [of ?m "''comet''" "''0xc3''" "''0xc3''"] by simp
  have other: "maybeStore ''comet'' ''0xd4'' ?m = Inl (AliasConflict ''comet'' ''0xc3'' ''0xd4'')"
    using maybeStore_cases [of ?m "''comet''" "''0xd4''" "''0xc3''"] by simp
  have fresh: "maybeStore ''rewards'' ''0xd4'' ?m = Inr (True, ?m(''rewards'' \<mapsto> ''0xd4''))"
    using maybeStore_cases [of ?m "''rewards''" "''0xd4''" "''0xc3''"] by simp
  have kept: "(?m(''rewards'' \<mapsto> ''0xd4'')) ''comet'' = Some ''0xc3''"
    using maybeStore_cases [of ?m "''rewards''" "''0xd4''" "''0xc3''"] fresh by simp
  show ?thesis using same other fresh kept by simp
qed

text \<open>
  C7, as stated, fails: a constraint whose \<open>solve\<close> returns the empty array is normalised
  to the empty list of solutions.
\<close>

theorem mapSolution_empty_counterexample:
  "mapSolution (Some (Many ([] :: (nat, nat, string) solution list))) = []"
  by (simp add: mapSolution_def asList_def)

text \<open>
  C7, amended. \<open>mapSolution\<close> turns \<open>null\<close> into the one-element list holding \<open>identity\<close>,
  which returns the context it was given and leaves the world as it was; a single
  solution into the one-element list holding it; an array into that array. So the
  result is empty exactly when \<open>solve\<close> returned the empty array.
\<close>

theorem mapSolution_normalises:
  fixes f :: "('ctx, 'w, 'e) solution" and ctx :: 'ctx and world :: 'w
    and fs :: "('ctx, 'w, 'e) solution list" and s :: "('ctx, 'w, 'e) solution one_or_many option"
  shows "mapSolution None = [identity :: ('ctx, 'w, 'e) solution] \<and>
   (identity :: ('ctx, 'w, 'e) solution) ctx world = (Inr (Some ctx), world) \<and>
   mapSolution (Some (One f)) = [f] \<and>
   mapSolution (Some (Many fs)) = fs \<and>
   (mapSolution s = [] \<longleftrightarrow> s = Some (Many []))"
  by (cases s; (auto simp: mapSolution_def asList_def identity_def split: one_or_many.splits))

theorem mapSolution_normalises_witness:
  "mapSolution (None :: (nat, nat, string) solution one_or_many option) = [identity] \<and>
   (identity :: (nat, nat, string) solution) 7 3 = (Inr (Some 7), 3) \<and>
   mapSolution (Some (Many [identity, identity :: (nat, nat, string) solution]))
     = [identity, identity] \<and>
   mapSolution (Some (Many ([] :: (nat, nat, string) solution list))) = []"
proof -
  have n: "mapSolution (None :: (nat, nat, string) solution one_or_many option) = [identity]"
    and i: "(identity :: (nat, nat, string) solution) 7 3 = (Inr (Some 7), 3)"
    and m: "mapSolution (Some (Many [identity, identity :: (nat, nat, string) solution]))
              = [identity, identity]"
    using mapSolution_normalises [where f = "identity :: (nat, nat, string) solution"
        and ctx = 7 and world = 3 and fs = "[identity, identity]" and s = "Some (Many [])"]
    by simp_all
  have e: "mapSolution (Some (Many ([] :: (nat, nat, string) solution list))) = []"
    using mapSolution_normalises [where f = "identity :: (nat, nat, string) solution"
        and ctx = 7 and world = 3 and fs = "[identity, identity]" and s = "Some (Many [])"]
    by simp
  show ?thesis using n i m e by simp
qed

subsection \<open>Retry\<close>

lemma attempt_state_shift:
  "attempt_state reset fn s (Suc k) = attempt_state reset fn (reset (snd (fn s))) k"
  by (induction k) simp_all

lemma retry_reaches:
  assumes "\<forall>k<N. isl (fst (fn (attempt_state reset fn s k)))"
    and "\<not> isl (fst (fn (attempt_state reset fn s N)))"
  shows "retry reset fn R wait s = fn (attempt_state reset fn s (min R N))"
  using assms
proof (induction R arbitrary: N s wait)
  case 0
  show ?case by (simp split: prod.splits sum.splits)
next
  case (Suc R)
  show ?case
  proof (cases N)
    case 0
    with Suc.prems(2) have "\<not> isl (fst (fn s))" by simp
    then show ?thesis using 0 by (auto split: prod.splits sum.splits)
  next
    case (Suc n)
    let ?s1 = "reset (snd (fn s))"
    from Suc.prems(1) Suc have "isl (fst (fn s))" by fastforce
    then have step: "retry reset fn (Suc R) wait s = retry reset fn R (wait * 2) ?s1"
      by (auto split: prod.splits sum.splits)
    have "\<forall>k<n. isl (fst (fn (attempt_state reset fn ?s1 k)))"
      using Suc.prems(1) Suc by (metis Suc_less_eq attempt_state_shift)
    moreover have "\<not> isl (fst (fn (attempt_state reset fn ?s1 n)))"
      using Suc.prems(2) Suc by (metis attempt_state_shift)
    ultimately have "retry reset fn R (wait * 2) ?s1 = fn (attempt_state reset fn ?s1 (min R n))"
      by (rule Suc.IH)
    then show ?thesis using step Suc by (simp add: attempt_state_shift del: attempt_state.simps)
  qed
qed

lemma counting_apply: "counting fn (s, n) = (fst (fn s), (snd (fn s), Suc n))"
  by (simp add: counting_def)

lemma keeping_apply: "keeping reset (s, n) = (reset s, n)"
  by (simp add: keeping_def)

lemma attempt_state_counting:
  "attempt_state (keeping reset) (counting fn) (s, c) k = (attempt_state reset fn s k, c + k)"
  by (induction k) (simp_all add: counting_apply keeping_apply)

text \<open>
  C4. An operation that fails on its first \<open>N\<close> invocations and succeeds on the next one,
  retried with budget \<open>R\<close>: the call ends with what invocation \<open>min R N + 1\<close> returned or
  threw, in the state that invocation left, and the operation has been invoked
  \<open>min R N + 1\<close> times. With \<open>R \<ge> N\<close> that is the success of invocation \<open>N + 1\<close>; with
  \<open>R < N\<close> it is the error of invocation \<open>R + 1\<close>, the last one, as thrown.
\<close>

theorem retry_invocations:
  assumes "\<forall>k<N. isl (fst (fn (attempt_state reset fn s k)))"
    and "\<not> isl (fst (fn (attempt_state reset fn s N)))"
  shows "retry reset fn R wait s = fn (attempt_state reset fn s (min R N)) \<and>
         snd (snd (retry (keeping reset) (counting fn) R wait (s, 0))) = min R N + 1 \<and>
         (N \<le> R \<longrightarrow> \<not> isl (fst (retry reset fn R wait s))) \<and>
         (R < N \<longrightarrow> isl (fst (retry reset fn R wait s)))"
proof -
  have plain: "retry reset fn R wait s = fn (attempt_state reset fn s (min R N))"
    using assms by (rule retry_reaches)
  have "\<forall>k<N. isl (fst (counting fn (attempt_state (keeping reset) (counting fn) (s, 0) k)))"
    using assms(1) by (simp add: attempt_state_counting counting_apply)
  moreover have "\<not> isl (fst (counting fn (attempt_state (keeping reset) (counting fn) (s, 0) N)))"
    using assms(2) by (simp add: attempt_state_counting counting_apply)
  ultimately have "retry (keeping reset) (counting fn) R wait (s, 0)
      = counting fn (attempt_state (keeping reset) (counting fn) (s, 0) (min R N))"
    by (rule retry_reaches)
  then have count: "snd (snd (retry (keeping reset) (counting fn) R wait (s, 0))) = min R N + 1"
    by (simp add: attempt_state_counting counting_apply)
  have ok: "N \<le> R \<longrightarrow> \<not> isl (fst (retry reset fn R wait s))"
    using plain assms(2) by (simp add: min_def)
  have ko: "R < N \<longrightarrow> isl (fst (retry reset fn R wait s))"
    using plain assms(1) by (simp add: min_def)
  show ?thesis using plain count ok ko by blast
qed

theorem retry_invocations_witness:
  "retry (\<lambda>s. s) (\<lambda>n::nat. (if n < 2 then Inl n else Inr (42::nat), Suc n)) 5 250 0 = (Inr 42, 3) \<and>
   snd (snd (retry (keeping (\<lambda>s. s)) (counting (\<lambda>n::nat. (if n < 2 then Inl n else Inr (42::nat), Suc n)))
     5 250 (0, 0))) = 3 \<and>
   retry (\<lambda>s. s) (\<lambda>n::nat. (if n < 2 then Inl n else Inr (42::nat), Suc n)) 1 250 0 = (Inl 1, 2) \<and>
   snd (snd (retry (keeping (\<lambda>s. s)) (counting (\<lambda>n::nat. (if n < 2 then Inl n else Inr (42::nat), Suc n)))
     1 250 (0, 0))) = 2"
proof -
  let ?fn = "\<lambda>n::nat. (if n < 2 then Inl n else Inr (42::nat), Suc n)"
  have st: "attempt_state (\<lambda>s. s) ?fn 0 k = k" for k
    by (induction k) simp_all
  have fails: "\<forall>k<2. isl (fst (?fn (attempt_state (\<lambda>s. s) ?fn 0 k)))"
    by (simp add: st)
  have succeeds: "\<not> isl (fst (?fn (attempt_state (\<lambda>s. s) ?fn 0 2)))"
    by (simp add: st)
  have enough: "retry (\<lambda>s. s) ?fn 5 250 0 = (Inr 42, 3)
      \<and> snd (snd (retry (keeping (\<lambda>s. s)) (counting ?fn) 5 250 (0, 0))) = 3"
    using retry_invocations [OF fails succeeds, of 5 250] by (simp add: st)
  have short: "retry (\<lambda>s. s) ?fn 1 250 0 = (Inl 1, 2)
      \<and> snd (snd (retry (keeping (\<lambda>s. s)) (counting ?fn) 1 250 (0, 0))) = 2"
    using retry_invocations [OF fails succeeds, of 1 250] by (simp add: st)
  show ?thesis using enough short by simp
qed


subsection \<open>Spider\<close>

lemma maybeStore_binds:
  "maybeStore a x into = Inr (r, into') \<Longrightarrow> x \<noteq> [] \<Longrightarrow> into' a = Some x"
  by (auto simp: maybeStore_def split: option.splits if_splits)

lemma keeps_proxiesD:
  "keeps_proxies recurse \<Longrightarrow> recurse node st = Some (Inr (found, st')) \<Longrightarrow>
   cs_proxies st p = Some d \<Longrightarrow> d \<noteq> [] \<Longrightarrow> cs_proxies st' p = Some d"
  unfolding keeps_proxies_def by blast

lemma crawlDelegates_keeps:
  assumes "keeps_proxies recurse"
    and "crawlDelegates env recurse address a nodes contract st = Some (Inr (contract', st'))"
    and "cs_proxies st p = Some d" and "d \<noteq> []"
  shows "cs_proxies st' p = Some d"
  using assms(2,3)
proof (induction nodes arbitrary: contract st)
  case Nil
  then show ?case by simp
next
  case (Cons implNode implNodes)
  from Cons.prems(1) obtain implAlias st1 where r: "recurse implNode st = Some (Inr (implAlias, st1))"
    by (auto split: option.splits sum.splits)
  from Cons.prems(1) r obtain implContract where c: "cs_contracts st1 implAlias = Some implContract"
    by (auto split: option.splits)
  from Cons.prems(1) r c obtain stored proxies'
    where m: "maybeStore a (node_address implNode) (cs_proxies st1) = Inr (stored, proxies')"
    by (auto split: sum.splits)
  have rest: "crawlDelegates env recurse address a implNodes
      (mergedContract env address implContract contract) (st1\<lparr>cs_proxies := proxies'\<rparr>)
      = Some (Inr (contract', st'))"
    using Cons.prems(1) r c m by simp
  have "cs_proxies st1 p = Some d"
    using keeps_proxiesD [OF assms(1) r Cons.prems(2) assms(4)] .
  then have "proxies' p = Some d"
    using maybeStore_keeps [OF _ assms(4) m] by simp
  then show ?case
    using Cons.IH [OF rest] by simp
qed

lemma crawlSubNodes_keeps:
  assumes "keeps_proxies recurse"
    and "crawlSubNodes recurse subKey nodes st = Some (Inr st')"
    and "cs_proxies st p = Some d" and "d \<noteq> []"
  shows "cs_proxies st' p = Some d"
  using assms(2,3)
proof (induction nodes arbitrary: st)
  case Nil
  then show ?case by simp
next
  case (Cons subNode subNodes)
  from Cons.prems(1) obtain subAlias st1 where r: "recurse subNode st = Some (Inr (subAlias, st1))"
    by (auto split: option.splits sum.splits)
  let ?st2 = "case cs_contracts st1 subAlias of
               None \<Rightarrow> st1
             | Some subContract \<Rightarrow>
                 st1\<lparr>cs_context := (cs_context st1)
                    (subKey \<mapsto> (case cs_context st1 subKey of None \<Rightarrow> [] | Some found \<Rightarrow> found)
                                @ [subContract])\<rparr>"
  have rest: "crawlSubNodes recurse subKey subNodes ?st2 = Some (Inr st')"
    using Cons.prems(1) r by simp
  have "cs_proxies st1 p = Some d"
    using keeps_proxiesD [OF assms(1) r Cons.prems(2) assms(4)] .
  then have "cs_proxies ?st2 p = Some d"
    by (simp split: option.splits)
  then show ?case
    using Cons.IH [OF rest] by simp
qed

lemma crawlRelations_keeps:
  assumes "keeps_proxies recurse"
    and "crawlRelations env recurse contract entries st = Some (Inr st')"
    and "cs_proxies st p = Some d" and "d \<noteq> []"
  shows "cs_proxies st' p = Some d"
  using assms(2,3)
proof (induction entries arbitrary: st)
  case Nil
  then show ?case by simp
next
  case (Cons entry entries)
  obtain subKey subConfig where e: "entry = (subKey, subConfig)" by (cases entry)
  from Cons.prems(1) e obtain subNodes
    where n: "discoverNodes env contract (cs_context st) subConfig subKey = Inr subNodes"
    by (auto split: sum.splits)
  from Cons.prems(1) e n obtain st1
    where s: "crawlSubNodes recurse subKey subNodes st = Some (Inr st1)"
    by (auto split: option.splits sum.splits)
  have rest: "crawlRelations env recurse contract entries st1 = Some (Inr st')"
    using Cons.prems(1) e n s by simp
  have "cs_proxies st1 p = Some d"
    using crawlSubNodes_keeps [OF assms(1) s Cons.prems(2) assms(4)] .
  then show ?case
    using Cons.IH [OF rest] by simp
qed

lemma maybeProcess_keeps:
  assumes k: "keeps_proxies recurse"
    and run: "maybeProcess env recurse address a build config st = Some (Inr (found, st'))"
    and p: "cs_proxies st p = Some d" and d: "d \<noteq> []"
  shows "cs_proxies st' p = Some d"
proof -
  from run obtain stored aliases'
    where m: "maybeStore a address (cs_aliases st) = Inr (stored, aliases')"
    by (auto simp: maybeProcess_def split: sum.splits)
  show ?thesis
  proof (cases stored)
    case False
    then show ?thesis using run m p by (simp add: maybeProcess_def)
  next
    case True
    let ?st0 = "st\<lparr>cs_aliases := aliases'\<rparr>"
    let ?first = "case delegates config of
                     None \<Rightarrow> Some (Inr (build_contract build, ?st0))
                   | Some delegatesConfig \<Rightarrow>
                       (case discoverNodes env (build_contract build) (cs_context st)
                               delegatesConfig (a @ '':implementation'') of
                          Inl e \<Rightarrow> Some (Inl e)
                        | Inr implNodes \<Rightarrow>
                            crawlDelegates env recurse address a implNodes
                              (build_contract build) ?st0)"
    from run m True obtain contract st1 where f: "?first = Some (Inr (contract, st1))"
      by (auto simp: maybeProcess_def split: option.splits sum.splits)
    have p0: "cs_proxies ?st0 p = Some d" using p by simp
    have p1: "cs_proxies st1 p = Some d"
    proof (cases "delegates config")
      case None
      then show ?thesis using f p0 by auto
    next
      case (Some delegatesConfig)
      with f obtain implNodes where "crawlDelegates env recurse address a implNodes
          (build_contract build) ?st0 = Some (Inr (contract, st1))"
        by (auto split: sum.splits)
      from crawlDelegates_keeps [OF k this p0 d] show ?thesis .
    qed
    let ?st2 = "st1\<lparr>cs_contracts := (cs_contracts st1)(a \<mapsto> contract)\<rparr>"
    let ?second = "case relations config of
                          None \<Rightarrow> Some (Inr ?st2)
                        | Some entries \<Rightarrow> crawlRelations env recurse contract entries ?st2"
    have s: "?second = Some (Inr st')"
      using run m True f by (auto simp: maybeProcess_def split: option.splits sum.splits)
    have p2: "cs_proxies ?st2 p = Some d" using p1 by simp
    show ?thesis
    proof (cases "relations config")
      case None
      then show ?thesis using s p2 by auto
    next
      case (Some entries)
      with s have "crawlRelations env recurse contract entries ?st2 = Some (Inr st')"
        by simp
      from crawlRelations_keeps [OF k this p2 d] show ?thesis .
    qed
  qed
qed

lemma crawl_body_keeps:
  assumes k: "keeps_proxies recurse"
  shows "keeps_proxies (crawl_body env relationMap recurse)"
  unfolding keeps_proxies_def
proof (intro allI impI)
  fix node st found st' p d
  assume run: "crawl_body env relationMap recurse node st = Some (Inr (found, st'))"
    and p: "cs_proxies st p = Some d" and d: "d \<noteq> []"
  have direct: "cs_proxies (st\<lparr>cs_aliases := x\<rparr>) p = Some d" for x
    using p by simp
  from run p show "cs_proxies st' p = Some d"
    unfolding crawl_body_def Let_def
    by (auto split: option.splits sum.splits bool.splits if_splits
             dest: maybeProcess_keeps [OF k _ p d] simp: direct)
qed

lemma crawl_keeps: "keeps_proxies (crawl fuel env relationMap)"
proof (induction fuel)
  case 0
  show ?case by (simp add: keeps_proxies_def)
next
  case (Suc fuel)
  have "crawl (Suc fuel) env relationMap = crawl_body env relationMap (crawl fuel env relationMap)"
    by (intro ext) simp
  then show ?case using crawl_body_keeps [OF Suc] by simp
qed

lemma crawlDelegates_one_address:
  assumes k: "keeps_proxies recurse"
    and run: "crawlDelegates env recurse address a nodes contract st = Some (Inr (contract', st'))"
    and ne: "nodes \<noteq> []" and addrs: "\<forall>n\<in>set nodes. node_address n \<noteq> []"
  shows "\<exists>d. cs_proxies st' a = Some d \<and> (\<forall>n\<in>set nodes. node_address n = d)"
  using run ne addrs
proof (induction nodes arbitrary: contract st)
  case Nil
  then show ?case by simp
next
  case (Cons implNode implNodes)
  from Cons.prems(1) obtain implAlias st1 where r: "recurse implNode st = Some (Inr (implAlias, st1))"
    by (auto split: option.splits sum.splits)
  from Cons.prems(1) r obtain implContract where c: "cs_contracts st1 implAlias = Some implContract"
    by (auto split: option.splits)
  from Cons.prems(1) r c obtain stored proxies'
    where m: "maybeStore a (node_address implNode) (cs_proxies st1) = Inr (stored, proxies')"
    by (auto split: sum.splits)
  let ?st2 = "st1\<lparr>cs_proxies := proxies'\<rparr>"
  have rest: "crawlDelegates env recurse address a implNodes
      (mergedContract env address implContract contract) ?st2 = Some (Inr (contract', st'))"
    using Cons.prems(1) r c m by simp
  have here: "node_address implNode \<noteq> []" using Cons.prems(3) by simp
  have bound: "cs_proxies ?st2 a = Some (node_address implNode)"
    using maybeStore_binds [OF m here] by simp
  have final: "cs_proxies st' a = Some (node_address implNode)"
    by (rule crawlDelegates_keeps [OF k rest bound here])
  show ?case
  proof (cases "implNodes = []")
    case True
    then show ?thesis using final by simp
  next
    case False
    have "\<forall>n\<in>set implNodes. node_address n \<noteq> []" using Cons.prems(3) by simp
    from Cons.IH [OF rest False this] final show ?thesis by auto
  qed
qed

text \<open>
  C10. In the loop over the delegates of a contract with alias \<open>a\<close> (addresses are
  non-empty strings): when the loop returns, all the delegate nodes it went through
  have one address, the one the proxy store holds for \<open>a\<close>; when the first delegate has
  been processed and the crawl of a second one, at another address, returns with its
  contract, the store of the second address throws the alias conflict; storing the
  address already held changes nothing; and a crawl that returns leaves every binding of
  the proxy store as it found it.
\<close>

theorem delegates_bind_one_address:
  fixes env :: "('b, 'c) collaborators"
  shows
   "(crawlDelegates env (crawl fuel env relationMap) address a nodes contract st
        = Some (Inr (contract', st')) \<and>
     nodes \<noteq> [] \<and> (\<forall>n\<in>set nodes. node_address n \<noteq> [])
     \<longrightarrow> (\<exists>d. cs_proxies st' a = Some d \<and> (\<forall>n\<in>set nodes. node_address n = d))) \<and>
    (crawl fuel env relationMap node1 st = Some (Inr (alias1, st1)) \<and>
     cs_contracts st1 alias1 = Some contract1 \<and>
     maybeStore a (node_address node1) (cs_proxies st1) = Inr (stored, proxies1) \<and>
     node_address node1 \<noteq> [] \<and>
     crawl fuel env relationMap node2 (st1\<lparr>cs_proxies := proxies1\<rparr>) = Some (Inr (alias2, st2)) \<and>
     cs_contracts st2 alias2 = Some contract2 \<and>
     node_address node2 \<noteq> node_address node1
     \<longrightarrow> crawlDelegates env (crawl fuel env relationMap) address a (node1 # node2 # nodes)
            contract st
          = Some (Inl (AliasConflict a (node_address node1) (node_address node2)))) \<and>
    (cs_proxies st a = Some d1 \<and> d1 \<noteq> []
     \<longrightarrow> maybeStore a d1 (cs_proxies st) = Inr (False, cs_proxies st)) \<and>
    (crawl fuel env relationMap node st = Some (Inr (found, st3)) \<and>
     cs_proxies st p = Some d2 \<and> d2 \<noteq> []
     \<longrightarrow> cs_proxies st3 p = Some d2)"
proof (intro conjI impI)
  assume "crawlDelegates env (crawl fuel env relationMap) address a nodes contract st
        = Some (Inr (contract', st')) \<and>
     nodes \<noteq> [] \<and> (\<forall>n\<in>set nodes. node_address n \<noteq> [])"
  then have r: "crawlDelegates env (crawl fuel env relationMap) address a nodes contract st
        = Some (Inr (contract', st'))"
    and n: "nodes \<noteq> []" and e: "\<forall>n\<in>set nodes. node_address n \<noteq> []"
    by simp_all
  show "\<exists>d. cs_proxies st' a = Some d \<and> (\<forall>n\<in>set nodes. node_address n = d)"
    by (rule crawlDelegates_one_address [OF crawl_keeps r n e])
next
  assume h: "crawl fuel env relationMap node1 st = Some (Inr (alias1, st1)) \<and>
     cs_contracts st1 alias1 = Some contract1 \<and>
     maybeStore a (node_address node1) (cs_proxies st1) = Inr (stored, proxies1) \<and>
     node_address node1 \<noteq> [] \<and>
     crawl fuel env relationMap node2 (st1\<lparr>cs_proxies := proxies1\<rparr>) = Some (Inr (alias2, st2)) \<and>
     cs_contracts st2 alias2 = Some contract2 \<and>
     node_address node2 \<noteq> node_address node1"
  then have m: "maybeStore a (node_address node1) (cs_proxies st1) = Inr (stored, proxies1)"
    and ne: "node_address node1 \<noteq> []"
    and c2: "crawl fuel env relationMap node2 (st1\<lparr>cs_proxies := proxies1\<rparr>)
               = Some (Inr (alias2, st2))"
    by simp_all
  have "proxies1 a = Some (node_address node1)"
    by (rule maybeStore_binds [OF m ne])
  then have "cs_proxies (st1\<lparr>cs_proxies := proxies1\<rparr>) a = Some (node_address node1)"
    by simp
  then have "cs_proxies st2 a = Some (node_address node1)"
    by (rule keeps_proxiesD [OF crawl_keeps c2 _ ne])
  then have "maybeStore a (node_address node2) (cs_proxies st2)
      = Inl (AliasConflict a (node_address node1) (node_address node2))"
    using h ne by (auto simp: maybeStore_def)
  then show "crawlDelegates env (crawl fuel env relationMap) address a (node1 # node2 # nodes)
            contract st
          = Some (Inl (AliasConflict a (node_address node1) (node_address node2)))"
    using h by simp
next
  assume "cs_proxies st a = Some d1 \<and> d1 \<noteq> []"
  then show "maybeStore a d1 (cs_proxies st) = Inr (False, cs_proxies st)"
    by (simp add: maybeStore_def)
next
  assume "crawl fuel env relationMap node st = Some (Inr (found, st3)) \<and>
     cs_proxies st p = Some d2 \<and> d2 \<noteq> []"
  then have c: "crawl fuel env relationMap node st = Some (Inr (found, st3))"
    and b: "cs_proxies st p = Some d2" and n: "d2 \<noteq> []"
    by simp_all
  show "cs_proxies st3 p = Some d2"
    by (rule keeps_proxiesD [OF crawl_keeps c b n])
qed

lemmas crawl_eval = spider_def crawl_body_def maybeProcess_def discoverNodes_def isContract_def
  localBuild_def remoteBuild_def maybeStore_def example_chain_def example_relations_def asList_def
  Let_def enumerate_eq_zip

theorem delegates_bind_one_address_witness:
  "crawlDelegates example_chain (crawl 1 example_chain example_relations) ''0xP'' ''comet''
     [\<lparr>node_address = ''0xA'',
       node_aliasRender = \<lparr>template = Str ''comet:implementation'', index = 0\<rparr>\<rparr>,
      \<lparr>node_address = ''0xB'',
       node_aliasRender = \<lparr>template = Str ''comet:implementation'', index = 1\<rparr>\<rparr>]
     ''0xP''
     \<lparr>cs_context = Map.empty, cs_aliases = [''comet'' \<mapsto> ''0xP''], cs_proxies = Map.empty,
      cs_contracts = Map.empty\<rparr>
     = Some (Inl (AliasConflict ''comet'' ''0xA'' ''0xB'')) \<and>
   maybeStore ''comet'' ''0xA'' [''comet'' \<mapsto> ''0xA''] = Inr (False, [''comet'' \<mapsto> ''0xA''])"
proof -
  let ?nodeA = "\<lparr>node_address = ''0xA'',
       node_aliasRender = \<lparr>template = Str ''comet:implementation'', index = 0\<rparr>\<rparr>"
  let ?nodeB = "\<lparr>node_address = ''0xB'',
       node_aliasRender = \<lparr>template = Str ''comet:implementation'', index = 1\<rparr>\<rparr>"
  let ?st = "\<lparr>cs_context = Map.empty, cs_aliases = [''comet'' \<mapsto> ''0xP''],
      cs_proxies = Map.empty, cs_contracts = (Map.empty :: string \<rightharpoonup> string)\<rparr>"
  let ?st1 = "\<lparr>cs_context = Map.empty,
      cs_aliases = [''comet'' \<mapsto> ''0xP'', ''comet:implementation'' \<mapsto> ''0xA''],
      cs_proxies = Map.empty,
      cs_contracts = [''comet:implementation'' \<mapsto> ''0xA'']\<rparr>"
  let ?st2 = "\<lparr>cs_context = Map.empty,
      cs_aliases = [''comet'' \<mapsto> ''0xP'', ''comet:implementation'' \<mapsto> ''0xA'',
                    ''comet:implementation:more'' \<mapsto> ''0xB''],
      cs_proxies = [''comet'' \<mapsto> ''0xA''],
      cs_contracts = [''comet:implementation'' \<mapsto> ''0xA'',
                      ''comet:implementation:more'' \<mapsto> ''0xB'']\<rparr>"
  have a: "crawl 1 example_chain example_relations ?nodeA ?st
      = Some (Inr (''comet:implementation'', ?st1))"
    by (simp add: crawl_eval)
  have b: "cs_contracts ?st1 ''comet:implementation'' = Some ''0xA''"
    by simp
  have c: "maybeStore ''comet'' (node_address ?nodeA) (cs_proxies ?st1)
      = Inr (True, [''comet'' \<mapsto> ''0xA''])"
    by (simp add: maybeStore_def)
  have d: "crawl 1 example_chain example_relations ?nodeB (?st1\<lparr>cs_proxies := [''comet'' \<mapsto> ''0xA'']\<rparr>)
      = Some (Inr (''comet:implementation:more'', ?st2))"
    by (simp add: crawl_eval)
  have e: "cs_contracts ?st2 ''comet:implementation:more'' = Some ''0xB''"
    by simp
  have conflict: "crawlDelegates example_chain (crawl 1 example_chain example_relations)
      ''0xP'' ''comet'' [?nodeA, ?nodeB] ''0xP'' ?st
      = Some (Inl (AliasConflict ''comet'' (node_address ?nodeA) (node_address ?nodeB)))"
    using delegates_bind_one_address [where env = example_chain and fuel = 1
        and relationMap = example_relations and ?node1.0 = "?nodeA" and st = "?st"
        and ?alias1.0 = "''comet:implementation''" and ?st1.0 = "?st1"
        and ?contract1.0 = "''0xA''" and a = "''comet''" and stored = True
        and ?proxies1.0 = "[''comet'' \<mapsto> ''0xA'']" and ?node2.0 = "?nodeB"
        and ?alias2.0 = "''comet:implementation:more''" and ?st2.0 = "?st2"
        and ?contract2.0 = "''0xB''" and nodes = "[]" and address = "''0xP''"
        and contract = "''0xP''", THEN conjunct2, THEN conjunct1] a b c d e
    by simp
  have same: "maybeStore ''comet'' ''0xA'' [''comet'' \<mapsto> ''0xA''] = Inr (False, [''comet'' \<mapsto> ''0xA''])"
    using delegates_bind_one_address [where env = example_chain
        and st = "\<lparr>cs_context = Map.empty, cs_aliases = Map.empty,
                   cs_proxies = [''comet'' \<mapsto> ''0xA''], cs_contracts = Map.empty\<rparr>"
        and a = "''comet''" and ?d1.0 = "''0xA''",
        THEN conjunct2, THEN conjunct2, THEN conjunct1]
    by simp
  show ?thesis using conflict same by simp
qed

subsection \<open>Scenario runner\<close>

lemmas runner_eval = run_def snapshot_def revertAndSnapshot_def getContext_def generateResult_def
  trial_def two_by_three_def offering_def tag_def identity_def mapSolution_def asList_def
  truthy_string_def


lemma applySolutions_calls:
  "applySolutions combo ctx w = (out, w', calls) \<Longrightarrow> \<forall>c\<in>set calls. \<exists>x v. c = Apply x v"
  by (induction combo arbitrary: ctx w out w' calls)
     (auto split: prod.splits sum.splits)

lemma checkConstraints_calls:
  "checkConstraints req cs ctx w = (out, w', calls) \<Longrightarrow> \<forall>c\<in>set calls. \<exists>x v. c = Check x v"
  by (induction cs arbitrary: w out w' calls)
     (auto split: prod.splits sum.splits)


lemma solveAll_calls:
  "solveAll req ctx cs w = (out, w', calls) \<Longrightarrow> \<forall>c\<in>set calls. \<exists>x v. c = Solve x v"
  by (induction cs arbitrary: w out w' calls)
     (auto split: prod.splits sum.splits)

lemma trial_calls:
  fixes calls :: "('ctx, 'u, 'w) call list"
  assumes "trial sc combo ctx w = (out, w', calls)"
  shows "\<forall>c\<in>set calls. trial_call c"
proof -
  obtain o1 w1 c1 where a: "applySolutions combo ctx w = (o1, w1, (c1 :: ('ctx, 'u, 'w) call list))"
    by (metis prod_cases3)
  have t1: "\<forall>c\<in>set c1. trial_call c"
    using applySolutions_calls [OF a] by (auto simp: trial_call_def)
  show ?thesis
  proof (cases o1)
    case (Inl e)
    with assms a t1 show ?thesis by (simp add: trial_def)
  next
    case (Inr ctx')
    obtain o2 w2 c2 where b: "checkConstraints (requirements sc) (constraints sc) ctx' w1
        = (o2, w2, (c2 :: ('ctx, 'u, 'w) call list))"
      by (metis prod_cases3)
    have t2: "\<forall>c\<in>set c2. trial_call c"
      using checkConstraints_calls [OF b] by (auto simp: trial_call_def)
    show ?thesis
      using assms a b Inr t1 t2
      by (auto simp: trial_def trial_call_def split: sum.splits prod.splits)
  qed
qed


lemma trial_no_initializer:
  fixes calls :: "('ctx, 'u, 'w) call list"
  assumes "trial sc combo ctx w = (out, w', calls)"
  shows "initializer_worlds calls = []"
proof -
  have "\<forall>c\<in>set calls. (case c of Initializer w \<Rightarrow> [w] | _ \<Rightarrow> []) = []"
    using trial_calls [OF assms] by (auto simp: trial_call_def split: call.splits)
  then show ?thesis by (simp add: initializer_worlds_def)
qed

lemma property_calls_append [simp]:
  "property_calls (xs @ ys) = property_calls xs @ property_calls ys"
  by (simp add: property_calls_def)

lemma initializer_worlds_append [simp]:
  "initializer_worlds (xs @ ys) = initializer_worlds xs @ initializer_worlds ys"
  by (simp add: initializer_worlds_def)

lemma run_unfold:
  fixes calls :: "('ctx, 'u, 'w) call list"
  assumes "run truthy sc w = (Inr r, w', calls)"
  shows "\<exists>context w1 choices w2 (cs :: ('ctx, 'u, 'w) call list) loop.
           getContext sc w = (Inr context, w1) \<and>
           solveAll (requirements sc) context (constraints sc) w1 = (Inr choices, w2, cs) \<and>
           runCombos truthy sc (combos ([identity] # choices)) w 0 0 w2 = (Inr r, w', loop) \<and>
           calls = Snapshot w # Initializer w # cs @ loop"
proof -
  obtain initial w1 where g: "getContext sc w = (Inr initial, w1)"
    using assms by (cases "getContext sc w") (auto simp: run_def snapshot_def split: sum.splits)
  obtain o2 w2 cs where s: "solveAll (requirements sc) initial (constraints sc) w1
      = (o2, w2, (cs :: ('ctx, 'u, 'w) call list))"
    by (metis prod_cases3)
  obtain choices where o2: "o2 = Inr choices"
    using assms g s by (cases o2) (auto simp: run_def snapshot_def split: prod.splits)
  obtain o3 w3 loop where l: "runCombos truthy sc (combos ([identity] # choices)) w 0 0 w2
      = (o3, w3, (loop :: ('ctx, 'u, 'w) call list))"
    by (metis prod_cases3)
  have "o3 = Inr r" "w3 = w'" "calls = Snapshot w # Initializer w # cs @ loop"
    using assms g s o2 l by (simp_all add: run_def snapshot_def)
  then show ?thesis using g s o2 l by blast
qed

lemma solve_calls_filtered:
  fixes cs :: "('ctx, 'u, 'w) call list"
  assumes "solveAll req ctx cns w = (out, w', cs)"
  shows "property_calls cs = []" and "initializer_worlds cs = []" and "revert_calls cs = []"
proof -
  have all: "\<forall>c\<in>set cs. \<exists>x v. c = Solve x v"
    by (rule solveAll_calls [OF assms])
  show "property_calls cs = []"
    using all by (auto simp: property_calls_def filter_empty_conv)
  show "revert_calls cs = []"
    using all by (auto simp: revert_calls_def filter_empty_conv)
  have "\<forall>c\<in>set cs. (case c of Initializer w \<Rightarrow> [w] | _ \<Rightarrow> []) = []"
    using all by auto
  then show "initializer_worlds cs = []"
    by (simp add: initializer_worlds_def)
qed













lemma bracketed_through_trial:
  "\<forall>c\<in>set body. trial_call c \<Longrightarrow> bracketed base None (body @ rest) = bracketed base None rest"
  by (induction body) (auto simp: trial_call_def split: call.splits)

lemma revert_calls_append [simp]:
  "revert_calls (xs @ ys) = revert_calls xs @ revert_calls ys"
  by (simp add: revert_calls_def)

lemma trial_no_revert:
  fixes calls :: "('ctx, 'u, 'w) call list"
  assumes "trial sc combo ctx w = (out, w', calls)"
  shows "revert_calls calls = []"
  using trial_calls [OF assms]
  by (auto simp: revert_calls_def filter_empty_conv trial_call_def split: call.splits)

lemma runCombos_bracketed:
  fixes calls :: "('ctx, 'u, 'w) call list"
  assumes "runCombos truthy sc cs snap gas n w = (Inr r, w', calls)"
  shows "bracketed snap (Some w) calls \<and> (cs \<noteq> [] \<longrightarrow> w' = snap)
         \<and> length (revert_calls calls) = length (initializer_worlds calls)
         \<and> initializer_worlds calls
             = (if calls = [] then [] else w # replicate (length (revert_calls calls) - 1) snap)"
  using assms
proof (induction cs arbitrary: gas n w w' calls)
  case Nil
  then show ?case by (auto simp: revert_calls_def initializer_worlds_def)
next
  case (Cons combo rest)
  obtain ctx w0 where g: "getContext sc w = (Inr ctx, w0)"
    using Cons.prems(1) by (cases "getContext sc w") (auto split: sum.splits)
  obtain out w1 lt where t: "trial sc combo ctx w0 = (out, w1, (lt :: ('ctx, 'u, 'w) call list))"
    by (metis prod_cases3)
  have body: "\<forall>c\<in>set lt. trial_call c" by (rule trial_calls [OF t])
  have nr: "revert_calls lt = []" by (rule trial_no_revert [OF t])
  have ni: "initializer_worlds lt = []" by (rule trial_no_initializer [OF t])
  show ?case
  proof (cases out)
    case (Inl e)
    then have "calls = Initializer w # lt @ [RevertAndSnapshot w1 snap]" "w' = snap"
      using Cons.prems g t by (auto simp: revertAndSnapshot_def)
    then show ?thesis
      using nr ni by (simp add: bracketed_through_trial [OF body] revert_calls_def initializer_worlds_def)
  next
    case (Inr receipt)
    let ?gas = "gas + (case receipt of Some g \<Rightarrow> g | None \<Rightarrow> 0)"
    obtain out' w3 l' where rec: "runCombos truthy sc rest snap ?gas (Suc n) snap
        = (out', w3, (l' :: ('ctx, 'u, 'w) call list))"
      by (metis prod_cases3)
    have out': "out' = Inr r" and w3: "w3 = w'"
      and calls: "calls = Initializer w # lt @ [RevertAndSnapshot w1 snap] @ l'"
      using Cons.prems(1) g t Inr rec by (simp_all add: revertAndSnapshot_def)
    have rec': "runCombos truthy sc rest snap ?gas (Suc n) snap = (Inr r, w', l')"
      using rec out' w3 by simp
    note ih = Cons.IH [OF rec']
    have ih_b: "bracketed snap (Some snap) l'" using ih by blast
    have ih_w: "rest \<noteq> [] \<longrightarrow> w' = snap" using ih by blast
    have ih_i: "initializer_worlds l'
        = (if l' = [] then [] else snap # replicate (length (revert_calls l') - 1) snap)"
      using ih by blast
    have end_world: "w' = snap"
    proof (cases rest)
      case Nil
      then show ?thesis using rec' by simp
    next
      case (Cons a list)
      then show ?thesis using ih_w by simp
    qed
    have br: "bracketed snap (Some w) calls"
      using calls ih_b by (simp add: bracketed_through_trial [OF body])
    have rc: "revert_calls calls = RevertAndSnapshot w1 snap # revert_calls l'"
      using calls nr by (simp add: revert_calls_def)
    have iw: "initializer_worlds calls = w # initializer_worlds l'"
      using calls ni by (simp add: initializer_worlds_def)
    have len: "length (revert_calls l') = length (initializer_worlds l')"
      using ih by blast
    define k where "k = length (revert_calls l')"
    have tail: "initializer_worlds l' = replicate k snap"
    proof (cases "l' = []")
      case True
      then show ?thesis by (simp add: k_def revert_calls_def initializer_worlds_def)
    next
      case False
      then have il: "initializer_worlds l' = snap # replicate (k - 1) snap"
        using ih_i unfolding k_def by simp
      then have "initializer_worlds l' \<noteq> []" by simp
      then have "k \<noteq> 0" using len unfolding k_def by simp
      then show ?thesis using il by (cases k) simp_all
    qed
    have c1: "length (revert_calls calls) = length (initializer_worlds calls)"
      unfolding rc iw tail by (simp add: k_def)
    have c2: "initializer_worlds calls
        = (if calls = [] then [] else w # replicate (length (revert_calls calls) - 1) snap)"
      unfolding rc iw tail using calls by (simp add: k_def)
    show ?thesis
      using br end_world c1 c2 by blast
  qed
qed

text \<open>
  C8, as stated, fails: the first trial starts in the world the initializer and the
  calls of \<open>solve\<close> left, not in the world of the snapshot.
\<close>

theorem run_first_trial_counterexample:
  "fst (run truthy_string solving_moves_world 0) = Inr \<lparr>totalGas = 0, numSolutionSets = 2, error = None\<rparr> \<and>
   trial_starts (snd (snd (run truthy_string solving_moves_world 0))) = [1, 0]"
  by (simp add: runner_eval solving_moves_world_def trial_starts_def initializer_worlds_def)

text \<open>
  C8, amended. In a run that returns a result, the calls of the loop form a strict
  bracket: each trial is a call of the initializer, the calls of its \<open>try\<close> block, and
  then, whether the block completed or threw, a revert to the snapshot taken at the
  start of the run. There are as many reverts as trials, every trial after the first
  starts in the world of that snapshot, the first one in the world left by the setup
  and the calls of \<open>solve\<close>, and a run that made a trial ends in the world of the snapshot.
\<close>

theorem run_brackets_trials:
  fixes calls :: "('ctx, 'u, 'w) call list"
  assumes "run truthy sc w = (Inr r, w', calls)"
  shows "\<exists>context w1 choices w2 (cs :: ('ctx, 'u, 'w) call list) loop.
           getContext sc w = (Inr context, w1) \<and>
           solveAll (requirements sc) context (constraints sc) w1 = (Inr choices, w2, cs) \<and>
           calls = Snapshot w # Initializer w # cs @ loop \<and>
           bracketed w (Some w2) loop \<and>
           length (revert_calls calls) = length (trial_starts calls) \<and>
           trial_starts calls
             = (if loop = [] then [] else w2 # replicate (length (trial_starts calls) - 1) w) \<and>
           (loop \<noteq> [] \<longrightarrow> w' = w)"
proof -
  obtain initial w1 choices w2 and cs loop :: "('ctx, 'u, 'w) call list"
    where g: "getContext sc w = (Inr initial, w1)"
      and s: "solveAll (requirements sc) initial (constraints sc) w1 = (Inr choices, w2, cs)"
      and l: "runCombos truthy sc (combos ([identity] # choices)) w 0 0 w2 = (Inr r, w', loop)"
      and c: "calls = Snapshot w # Initializer w # cs @ loop"
    using run_unfold [OF assms(1)] by blast
  note b = runCombos_bracketed [OF l]
  have rc: "revert_calls calls = revert_calls loop"
    using c solve_calls_filtered(3) [OF s] by (simp add: revert_calls_def)
  have ts: "trial_starts calls = initializer_worlds loop"
    using c solve_calls_filtered(2) [OF s] by (simp add: trial_starts_def initializer_worlds_def)
  have ne: "combos ([identity] # choices) \<noteq> [] \<or> loop = []"
    using l by (cases "combos ([identity] # choices)") auto
  have e: "loop \<noteq> [] \<longrightarrow> w' = w"
    using b ne by blast
  have br: "bracketed w (Some w2) loop"
    using b by blast
  have n: "length (revert_calls calls) = length (trial_starts calls)"
    unfolding rc ts using b by blast
  have i: "initializer_worlds loop
      = (if loop = [] then [] else w2 # replicate (length (revert_calls loop) - 1) w)"
    using b by blast
  have t: "trial_starts calls
      = (if loop = [] then [] else w2 # replicate (length (trial_starts calls) - 1) w)"
    using i n unfolding rc ts by metis
  show ?thesis
    using g s c br n t e by blast
qed


theorem run_brackets_trials_witness:
  "fst (run truthy_string (two_by_three (\<lambda>ctx. ctx = [''a1'', ''b2''])) 0)
     = Inr \<lparr>totalGas = 0, numSolutionSets = 2, error = Some ''assertion failed''\<rparr> \<and>
   (\<exists>loop. snd (snd (run truthy_string (two_by_three (\<lambda>ctx. ctx = [''a1'', ''b2''])) 0))
        = [Snapshot 0, Initializer 0, Solve [] 0, Solve [] 0] @ loop \<and>
      bracketed 0 (Some 0) loop) \<and>
   length (revert_calls (snd (snd (run truthy_string (two_by_three (\<lambda>ctx. ctx = [''a1'', ''b2''])) 0))))
     = length (trial_starts (snd (snd (run truthy_string (two_by_three (\<lambda>ctx. ctx = [''a1'', ''b2''])) 0)))) \<and>
   fst (snd (run truthy_string (two_by_three (\<lambda>ctx. ctx = [''a1'', ''b2''])) 0)) = 0"
proof -
  let ?sc = "two_by_three (\<lambda>ctx. ctx = [''a1'', ''b2''])"
  let ?r = "\<lparr>totalGas = 0, numSolutionSets = 2, error = Some ''assertion failed''\<rparr>"
  have e: "fst (run truthy_string ?sc 0) = Inr ?r"
    by (simp add: runner_eval)
  then have h: "run truthy_string ?sc 0 = (Inr ?r, fst (snd (run truthy_string ?sc 0)), snd (snd (run truthy_string ?sc 0)))"
    by (metis prod.collapse)
  from run_brackets_trials [OF h]
  obtain initial w1 choices w2 and cs loop :: "(string list, string list, nat) call list"
    where g: "getContext ?sc 0 = (Inr initial, w1)"
      and s: "solveAll (requirements ?sc) initial (constraints ?sc) w1 = (Inr choices, w2, cs)"
      and c: "snd (snd (run truthy_string ?sc 0)) = Snapshot 0 # Initializer 0 # cs @ loop"
      and b: "bracketed 0 (Some w2) loop"
      and n: "length (revert_calls (snd (snd (run truthy_string ?sc 0))))
                = length (trial_starts (snd (snd (run truthy_string ?sc 0))))"
      and w: "loop \<noteq> [] \<longrightarrow> fst (snd (run truthy_string ?sc 0)) = 0"
    by blast
  from g have i: "initial = []" "w1 = 0"
    by (simp_all add: runner_eval)
  with s have cs: "w2 = 0" "cs = [Solve [] 0, Solve [] 0]"
    by (auto simp: runner_eval)
  have "loop \<noteq> []"
  proof
    assume "loop = []"
    with c cs have "length (snd (snd (run truthy_string ?sc 0))) = 4" by simp
    then show False by (simp add: runner_eval)
  qed
  with w have "fst (snd (run truthy_string ?sc 0)) = 0" by simp
  with e c b cs n show ?thesis by simp
qed

subsection \<open>Idempotent\<close>

lemma retry_upto:
  assumes "\<forall>k<M. isl (fst (fn (attempt_state reset fn s k)))"
    and "M \<le> R"
    and "M = R \<or> \<not> isl (fst (fn (attempt_state reset fn s M)))"
  shows "retry reset fn R wait s = fn (attempt_state reset fn s M)"
  using assms
proof (induction R arbitrary: M s wait)
  case 0
  then show ?case by (simp split: prod.splits sum.splits)
next
  case (Suc R)
  show ?case
  proof (cases M)
    case 0
    with Suc.prems(3) have "\<not> isl (fst (fn s))" by simp
    then show ?thesis using 0 by (auto split: prod.splits sum.splits)
  next
    case (Suc m)
    let ?s1 = "reset (snd (fn s))"
    from Suc.prems(1) Suc have "isl (fst (fn s))" by fastforce
    then have step: "retry reset fn (Suc R) wait s = retry reset fn R (wait * 2) ?s1"
      by (auto split: prod.splits sum.splits)
    have a: "\<forall>k<m. isl (fst (fn (attempt_state reset fn ?s1 k)))"
      using Suc.prems(1) Suc by (metis Suc_less_eq attempt_state_shift)
    have b: "m \<le> R" using Suc.prems(2) Suc by simp
    have c: "m = R \<or> \<not> isl (fst (fn (attempt_state reset fn ?s1 m)))"
      using Suc.prems(3) Suc by (metis attempt_state_shift nat.inject)
    have "retry reset fn R (wait * 2) ?s1 = fn (attempt_state reset fn ?s1 m)"
      using a b c by (rule Suc.IH)
    then show ?thesis using step Suc by (simp add: attempt_state_shift del: attempt_state.simps)
  qed
qed

lemma uncounted_apply: "uncounted fn (s, n) = (fst (fn s), (snd (fn s), n))"
  by (simp add: uncounted_def)

lemma last_invocation_exists:
  "\<exists>M\<le>R. (\<forall>k<M. isl (fst (fn (attempt_state reset fn s k)))) \<and>
          (M = R \<or> \<not> isl (fst (fn (attempt_state reset fn s M))))"
proof (cases "\<exists>k\<le>R. \<not> isl (fst (fn (attempt_state reset fn s k)))")
  case True
  define M where "M = (LEAST k. \<not> isl (fst (fn (attempt_state reset fn s k))))"
  from True obtain k where k: "k \<le> R" "\<not> isl (fst (fn (attempt_state reset fn s k)))" by blast
  have ok: "\<not> isl (fst (fn (attempt_state reset fn s M)))"
    unfolding M_def using k(2) by (rule LeastI)
  have le: "M \<le> k" unfolding M_def using k(2) by (rule Least_le)
  have before: "\<forall>j<M. isl (fst (fn (attempt_state reset fn s j)))"
    unfolding M_def using not_less_Least by blast
  show ?thesis using ok le k(1) before by (meson order_trans)
next
  case False
  then have "\<forall>k<R. isl (fst (fn (attempt_state reset fn s k)))" by auto
  then show ?thesis by blast
qed

text \<open>
  C6. When \<open>condition\<close> resolves to false, \<open>idempotent\<close> returns nothing and leaves the
  state \<open>condition\<close> left, and the action has been invoked zero times, whatever it is.
  When it resolves to true, the action runs under \<open>retry\<close> with the budget \<open>R\<close> given, 5
  when none is given: with \<open>M + 1\<close> the first invocation that succeeds, or the last one
  the budget allows (\<open>M = R\<close>), the call returns what invocation \<open>M + 1\<close> returned, or throws
  what it threw, in the state it left, and the action has been invoked \<open>M + 1\<close> times:
  once when it succeeds at once, once more after each failure otherwise. Every action
  has such an \<open>M\<close>.
\<close>

theorem idempotent_cases:
  "(condition s = (Inr False, s') \<longrightarrow>
      idempotent reset condition action retries s = (Inr None, s') \<and>
      idempotent (keeping reset) (uncounted condition) (counting action) retries (s, 0)
        = (Inr None, (s', 0))) \<and>
   (condition s = (Inr True, s') \<and> R = (case retries of None \<Rightarrow> 5 | Some r \<Rightarrow> r) \<and> M \<le> R \<and>
    (\<forall>k<M. isl (fst (action (attempt_state reset action s' k)))) \<and>
    (M = R \<or> \<not> isl (fst (action (attempt_state reset action s' M)))) \<longrightarrow>
      idempotent reset condition action retries s
        = (case action (attempt_state reset action s' M) of
             (Inl e, t) \<Rightarrow> (Inl e, t)
           | (Inr v, t) \<Rightarrow> (Inr (Some v), t)) \<and>
      snd (snd (idempotent (keeping reset) (uncounted condition) (counting action) retries (s, 0)))
        = M + 1) \<and>
   (\<exists>M\<le>(case retries of None \<Rightarrow> 5 | Some r \<Rightarrow> r).
      (\<forall>k<M. isl (fst (action (attempt_state reset action s' k)))) \<and>
      (M = (case retries of None \<Rightarrow> 5 | Some r \<Rightarrow> r) \<or>
       \<not> isl (fst (action (attempt_state reset action s' M)))))"
proof (intro conjI impI)
  assume c: "condition s = (Inr False, s')"
  show "idempotent reset condition action retries s = (Inr None, s')"
    using c by (simp add: idempotent_def)
  show "idempotent (keeping reset) (uncounted condition) (counting action) retries (s, 0)
        = (Inr None, (s', 0))"
    using c by (simp add: idempotent_def uncounted_apply)
next
  assume h: "condition s = (Inr True, s') \<and> R = (case retries of None \<Rightarrow> 5 | Some r \<Rightarrow> r) \<and> M \<le> R \<and>
    (\<forall>k<M. isl (fst (action (attempt_state reset action s' k)))) \<and>
    (M = R \<or> \<not> isl (fst (action (attempt_state reset action s' M))))"
  have c: "condition s = (Inr True, s')"
    using h by blast
  have r: "(case retries of None \<Rightarrow> 5 | Some r \<Rightarrow> r) = R"
    using h by simp
  have le: "M \<le> R"
    using h by blast
  have fails: "\<forall>k<M. isl (fst (action (attempt_state reset action s' k)))"
    using h by blast
  have stop: "M = R \<or> \<not> isl (fst (action (attempt_state reset action s' M)))"
    using h by blast
  have plain: "retry reset action R 250 s' = action (attempt_state reset action s' M)"
    using fails le stop by (rule retry_upto)
  show "idempotent reset condition action retries s
        = (case action (attempt_state reset action s' M) of
             (Inl e, t) \<Rightarrow> (Inl e, t)
           | (Inr v, t) \<Rightarrow> (Inr (Some v), t))"
    using c by (simp add: idempotent_def retry_with_defaults_def r plain)
  have fails': "\<forall>k<M. isl (fst (counting action
        (attempt_state (keeping reset) (counting action) (s', 0) k)))"
    using fails by (simp add: attempt_state_counting counting_apply)
  have stop': "M = R \<or> \<not> isl (fst (counting action
        (attempt_state (keeping reset) (counting action) (s', 0) M)))"
    using stop by (simp add: attempt_state_counting counting_apply)
  have counted: "retry (keeping reset) (counting action) R 250 (s', 0)
      = counting action (attempt_state (keeping reset) (counting action) (s', 0) M)"
    using fails' le stop' by (rule retry_upto)
  show "snd (snd (idempotent (keeping reset) (uncounted condition) (counting action) retries (s, 0)))
        = M + 1"
    using c
    by (simp add: idempotent_def retry_with_defaults_def r counted uncounted_apply
        attempt_state_counting counting_apply split: sum.splits prod.splits)
next
  show "\<exists>M\<le>(case retries of None \<Rightarrow> 5 | Some r \<Rightarrow> r).
      (\<forall>k<M. isl (fst (action (attempt_state reset action s' k)))) \<and>
      (M = (case retries of None \<Rightarrow> 5 | Some r \<Rightarrow> r) \<or>
       \<not> isl (fst (action (attempt_state reset action s' M))))"
    by (rule last_invocation_exists)
qed

theorem idempotent_cases_witness:
  "idempotent (\<lambda>n. n) (\<lambda>n::nat. (Inr False :: string + bool, n))
      (\<lambda>n. (if n < 2 then Inl ''busy'' else Inr ''minted'', Suc n)) None 0 = (Inr None, 0) \<and>
   idempotent (keeping (\<lambda>n. n)) (uncounted (\<lambda>n::nat. (Inr False :: string + bool, n)))
      (counting (\<lambda>n. (if n < 2 then Inl ''busy'' else Inr ''minted'', Suc n))) None (0, 0)
        = (Inr None, (0, 0)) \<and>
   idempotent (\<lambda>n. n) (\<lambda>n::nat. (Inr True :: string + bool, n))
      (\<lambda>n. (if n < 2 then Inl ''busy'' else Inr ''minted'', Suc n)) None 0
        = (Inr (Some ''minted''), 3) \<and>
   snd (snd (idempotent (keeping (\<lambda>n. n)) (uncounted (\<lambda>n::nat. (Inr True :: string + bool, n)))
      (counting (\<lambda>n. (if n < 2 then Inl ''busy'' else Inr ''minted'', Suc n))) None (0, 0))) = 3 \<and>
   idempotent (\<lambda>n. n) (\<lambda>n::nat. (Inr True :: string + bool, n))
      (\<lambda>n. (if n < 2 then Inl ''busy'' else Inr ''minted'', Suc n)) (Some 1) 0
        = (Inl ''busy'', 2) \<and>
   snd (snd (idempotent (keeping (\<lambda>n. n)) (uncounted (\<lambda>n::nat. (Inr True :: string + bool, n)))
      (counting (\<lambda>n. (if n < 2 then Inl ''busy'' else Inr ''minted'', Suc n))) (Some 1) (0, 0))) = 2"
proof -
  let ?action = "\<lambda>n::nat. (if n < 2 then Inl ''busy'' else Inr ''minted'' :: string + string, Suc n)"
  let ?no = "\<lambda>n::nat. (Inr False :: string + bool, n)"
  let ?yes = "\<lambda>n::nat. (Inr True :: string + bool, n)"
  have st: "attempt_state (\<lambda>s. s) ?action 0 k = k" for k
    by (induction k) simp_all
  have no: "idempotent (\<lambda>n. n) ?no ?action None 0 = (Inr None, 0) \<and>
      idempotent (keeping (\<lambda>n. n)) (uncounted ?no) (counting ?action) None (0, 0)
        = (Inr None, (0, 0))"
    using idempotent_cases [where condition = ?no and s = 0 and s' = 0 and action = ?action
        and reset = "\<lambda>n. n" and retries = None, THEN conjunct1]
    by simp
  have enough: "idempotent (\<lambda>n. n) ?yes ?action None 0 = (Inr (Some ''minted''), 3) \<and>
      snd (snd (idempotent (keeping (\<lambda>n. n)) (uncounted ?yes) (counting ?action) None (0, 0))) = 3"
    using idempotent_cases [where condition = ?yes and s = 0 and s' = 0 and action = ?action
        and reset = "\<lambda>n. n" and retries = None and R = 5 and M = 2,
        THEN conjunct2, THEN conjunct1]
    by (simp add: st)
  have short: "idempotent (\<lambda>n. n) ?yes ?action (Some 1) 0 = (Inl ''busy'', 2) \<and>
      snd (snd (idempotent (keeping (\<lambda>n. n)) (uncounted ?yes) (counting ?action) (Some 1) (0, 0))) = 2"
    using idempotent_cases [where condition = ?yes and s = 0 and s' = 0 and action = ?action
        and reset = "\<lambda>n. n" and retries = "Some 1" and R = 1 and M = 1,
        THEN conjunct2, THEN conjunct1]
    by (simp add: st)
  show ?thesis using no enough short by simp
qed

subsection \<open>Spider: errors\<close>

lemma crawlRoots_aborts:
  assumes "crawlRoots recurse pre st = Some (Inr st1)"
    and "recurse \<lparr>node_address = address,
                   node_aliasRender = \<lparr>template = Str a, index = 0\<rparr>\<rparr> st1 = Some (Inl e)"
  shows "crawlRoots recurse (pre @ (a, address) # post) st = Some (Inl e)"
  using assms
proof (induction pre arbitrary: st)
  case Nil
  then show ?case by simp
next
  case (Cons root pre)
  obtain a0 address0 where root: "root = (a0, address0)" by (cases root)
  let ?node = "\<lparr>node_address = address0, node_aliasRender = \<lparr>template = Str a0, index = 0\<rparr>\<rparr>"
  from Cons.prems(1) root obtain found st0 where
    first: "recurse ?node st = Some (Inr (found, st0))"
    and rest: "crawlRoots recurse pre st0 = Some (Inr st1)"
    by (auto split: option.splits sum.splits)
  have "crawlRoots recurse (pre @ (a, address) # post) st0 = Some (Inl e)"
    using rest Cons.prems(2) by (rule Cons.IH)
  then show ?case using root first by simp
qed

lemma crawlSubNodes_aborts:
  assumes "crawlSubNodes recurse subKey pre st = Some (Inr st1)"
    and "recurse node st1 = Some (Inl e)"
  shows "crawlSubNodes recurse subKey (pre @ node # post) st = Some (Inl e)"
  using assms
proof (induction pre arbitrary: st)
  case Nil
  then show ?case by simp
next
  case (Cons n pre)
  from Cons.prems(1) obtain found st0 where
    first: "recurse n st = Some (Inr (found, st0))"
    by (auto split: option.splits sum.splits)
  let ?st0 = "(case cs_contracts st0 found of
               None \<Rightarrow> st0
             | Some subContract \<Rightarrow>
                 st0\<lparr>cs_context := (cs_context st0)
                    (subKey \<mapsto> (case cs_context st0 subKey of None \<Rightarrow> [] | Some found \<Rightarrow> found)
                                @ [subContract])\<rparr>)"
  have rest: "crawlSubNodes recurse subKey pre ?st0 = Some (Inr st1)"
    using Cons.prems(1) first by simp
  have "crawlSubNodes recurse subKey (pre @ node # post) ?st0 = Some (Inl e)"
    using rest Cons.prems(2) by (rule Cons.IH)
  then show ?case using first by simp
qed

lemma crawlDelegates_aborts:
  assumes "crawlDelegates env recurse address a pre contract st = Some (Inr (contract1, st1))"
    and "recurse node st1 = Some (Inl e)"
  shows "crawlDelegates env recurse address a (pre @ node # post) contract st = Some (Inl e)"
  using assms
proof (induction pre arbitrary: st contract)
  case Nil
  then show ?case by simp
next
  case (Cons n pre)
  from Cons.prems(1) obtain implAlias st0 implContract stored proxies' where
    first: "recurse n st = Some (Inr (implAlias, st0))"
    and impl: "cs_contracts st0 implAlias = Some implContract"
    and store: "maybeStore a (node_address n) (cs_proxies st0) = Inr (stored, proxies')"
    by (auto split: option.splits sum.splits prod.splits)
  have rest: "crawlDelegates env recurse address a pre
      (mergedContract env address implContract contract) (st0\<lparr>cs_proxies := proxies'\<rparr>)
      = Some (Inr (contract1, st1))"
    using Cons.prems(1) first impl store by simp
  have "crawlDelegates env recurse address a (pre @ node # post)
      (mergedContract env address implContract contract) (st0\<lparr>cs_proxies := proxies'\<rparr>)
      = Some (Inl e)"
    using rest Cons.prems(2) by (rule Cons.IH)
  then show ?case using first impl store by simp
qed

lemma crawlRelations_aborts:
  assumes "crawlRelations env recurse contract pre st = Some (Inr st1)"
    and "discoverNodes env contract (cs_context st1) subConfig subKey = Inr subNodes"
    and "crawlSubNodes recurse subKey subNodes st1 = Some (Inl e)"
  shows "crawlRelations env recurse contract (pre @ (subKey, subConfig) # post) st = Some (Inl e)"
  using assms
proof (induction pre arbitrary: st)
  case Nil
  then show ?case by simp
next
  case (Cons entry pre)
  obtain k c where entry: "entry = (k, c)" by (cases entry)
  from Cons.prems(1) entry obtain nodes st0 where
    nodes: "discoverNodes env contract (cs_context st) c k = Inr nodes"
    and first: "crawlSubNodes recurse k nodes st = Some (Inr st0)"
    and rest: "crawlRelations env recurse contract pre st0 = Some (Inr st1)"
    by (auto split: option.splits sum.splits)
  have "crawlRelations env recurse contract (pre @ (subKey, subConfig) # post) st0 = Some (Inl e)"
    using rest Cons.prems(2,3) by (rule Cons.IH)
  then show ?case using entry nodes first by simp
qed


text \<open>
  C9. A work item whose alias template has a relation config but whose address holds no
  code: the crawl throws the configuration error, whatever the fuel, the state, the
  recursive crawler and the rest of the config. The error then ends everything around
  it, wherever the work item is: thrown by the crawl of a node, it is what the loop over
  the delegate nodes and the loop over the nodes of a relation throw, whatever nodes
  were crawled before and whatever nodes are left; thrown in the nodes of a relation, it
  is what the loop over the relations throws, whatever relations are left; thrown by
  the delegates or by the relations, it is what \<open>maybeProcess\<close> throws; the crawl of a
  contract returns or throws exactly what its call of \<open>maybeProcess\<close> does; thrown by the
  crawl of a root, it is what the loop over the roots throws, whatever roots are left,
  and \<open>spider\<close> throws it. No loop crawls a node again or goes on to the next one. A work
  item with no config and no code is stored in the alias store under the alias read
  without a contract, and the crawl returns: no recursive call is made, whatever
  \<open>recurse\<close> is.
\<close>

theorem crawl_config_without_contract:
  fixes env :: "('b, 'c) collaborators"
  shows
   "(relationMap (aliasTemplateKey env (template (node_aliasRender node))) = Some aliasConfig \<and>
     getCode env (node_address node) = Inr ''0x''
     \<longrightarrow> crawl_body env relationMap recurse node st
          = Some (Inl (ConfigButNoContract (template (node_aliasRender node)) (node_address node))) \<and>
         crawl (Suc fuel) env relationMap node st
          = Some (Inl (ConfigButNoContract (template (node_aliasRender node)) (node_address node)))) \<and>
    (crawlDelegates env recurse address a pre contract st = Some (Inr (contract1, st1)) \<and>
     recurse node st1 = Some (Inl e)
     \<longrightarrow> crawlDelegates env recurse address a (pre @ node # post) contract st = Some (Inl e)) \<and>
    (crawlSubNodes recurse subKey pre st = Some (Inr st1) \<and> recurse node st1 = Some (Inl e)
     \<longrightarrow> crawlSubNodes recurse subKey (pre @ node # post) st = Some (Inl e)) \<and>
    (crawlRelations env recurse contract earlier st = Some (Inr st1) \<and>
     discoverNodes env contract (cs_context st1) subConfig subKey = Inr subNodes \<and>
     crawlSubNodes recurse subKey subNodes st1 = Some (Inl e)
     \<longrightarrow> crawlRelations env recurse contract (earlier @ (subKey, subConfig) # later) st
          = Some (Inl e)) \<and>
    (maybeStore a address (cs_aliases st) = Inr (True, aliases') \<and>
     delegates config = Some delegatesConfig \<and>
     discoverNodes env (build_contract build) (cs_context st) delegatesConfig
       (a @ '':implementation'') = Inr implNodes \<and>
     crawlDelegates env recurse address a implNodes (build_contract build)
       (st\<lparr>cs_aliases := aliases'\<rparr>) = Some (Inl e)
     \<longrightarrow> maybeProcess env recurse address a build config st = Some (Inl e)) \<and>
    (maybeStore a address (cs_aliases st) = Inr (True, aliases') \<and>
     (delegates config = None \<and> contract = build_contract build \<and> st1 = st\<lparr>cs_aliases := aliases'\<rparr> \<or>
      delegates config = Some delegatesConfig \<and>
      discoverNodes env (build_contract build) (cs_context st) delegatesConfig
        (a @ '':implementation'') = Inr implNodes \<and>
      crawlDelegates env recurse address a implNodes (build_contract build)
        (st\<lparr>cs_aliases := aliases'\<rparr>) = Some (Inr (contract, st1))) \<and>
     relations config = Some entries \<and>
     crawlRelations env recurse contract entries
       (st1\<lparr>cs_contracts := (cs_contracts st1)(a \<mapsto> contract)\<rparr>) = Some (Inl e)
     \<longrightarrow> maybeProcess env recurse address a build config st = Some (Inl e)) \<and>
    (relationMap (aliasTemplateKey env (template (node_aliasRender node))) = Some aliasConfig \<and>
     getCode env (node_address node) = Inr code \<and> code \<noteq> ''0x'' \<and>
     (case artifact aliasConfig of
        None \<Rightarrow> remoteBuild env (node_address node)
      | Some artifactName \<Rightarrow>
          if artifactName \<noteq> [] then localBuild env artifactName (node_address node)
          else remoteBuild env (node_address node)) = Inr build \<and>
     readAlias env (Some (build_contract build)) (node_aliasRender node) (cs_context st) = Inr found
     \<longrightarrow> crawl_body env relationMap recurse node st
          = maybeProcess env recurse (node_address node) found build aliasConfig st) \<and>
    (relationMap (aliasTemplateKey env (template (node_aliasRender node))) = None \<and>
     getCode env (node_address node) = Inr code \<and> code \<noteq> ''0x'' \<and>
     remoteBuild env (node_address node) = Inr build \<and>
     readAlias env (Some (build_contract build)) (node_aliasRender node) (cs_context st) = Inr found
     \<longrightarrow> crawl_body env relationMap recurse node st
          = maybeProcess env recurse (node_address node) found build
              (case relationMap (contractName env (buildFile build)) of
                 Some contractConfig \<Rightarrow> contractConfig
               | None \<Rightarrow> \<lparr>artifact = None, delegates = None, relations = None\<rparr>)
              st) \<and>
    (crawlRoots recurse before st = Some (Inr st1) \<and>
     recurse \<lparr>node_address = address,
              node_aliasRender = \<lparr>template = Str root, index = 0\<rparr>\<rparr> st1 = Some (Inl e)
     \<longrightarrow> crawlRoots recurse (before @ (root, address) # after) st = Some (Inl e)) \<and>
    (crawlRoots (crawl fuel env relationMap) roots
       \<lparr>cs_context = Map.empty, cs_aliases = Map.empty, cs_proxies = Map.empty,
        cs_contracts = Map.empty\<rparr> = Some (Inl e)
     \<longrightarrow> spider fuel env relationMap roots = Some (Inl e)) \<and>
    (relationMap (aliasTemplateKey env (template (node_aliasRender node))) = None \<and>
     getCode env (node_address node) = Inr ''0x'' \<and>
     readAlias env None (node_aliasRender node) (cs_context st) = Inr found
     \<longrightarrow> crawl_body env relationMap recurse node st
          = (case maybeStore found (node_address node) (cs_aliases st) of
               Inl e \<Rightarrow> Some (Inl e)
             | Inr (stored, aliases') \<Rightarrow> Some (Inr (found, st\<lparr>cs_aliases := aliases'\<rparr>))))"
proof (intro conjI)
  show "relationMap (aliasTemplateKey env (template (node_aliasRender node))) = Some aliasConfig \<and>
     getCode env (node_address node) = Inr ''0x''
     \<longrightarrow> crawl_body env relationMap recurse node st
          = Some (Inl (ConfigButNoContract (template (node_aliasRender node)) (node_address node))) \<and>
         crawl (Suc fuel) env relationMap node st
          = Some (Inl (ConfigButNoContract (template (node_aliasRender node)) (node_address node)))"
    by (simp add: crawl_body_def isContract_def)
  show "crawlDelegates env recurse address a pre contract st = Some (Inr (contract1, st1)) \<and>
     recurse node st1 = Some (Inl e)
     \<longrightarrow> crawlDelegates env recurse address a (pre @ node # post) contract st = Some (Inl e)"
    by (intro impI, elim conjE, erule crawlDelegates_aborts, assumption+)
  show "crawlSubNodes recurse subKey pre st = Some (Inr st1) \<and> recurse node st1 = Some (Inl e)
     \<longrightarrow> crawlSubNodes recurse subKey (pre @ node # post) st = Some (Inl e)"
    by (intro impI, elim conjE, erule crawlSubNodes_aborts, assumption+)
  show "crawlRelations env recurse contract earlier st = Some (Inr st1) \<and>
     discoverNodes env contract (cs_context st1) subConfig subKey = Inr subNodes \<and>
     crawlSubNodes recurse subKey subNodes st1 = Some (Inl e)
     \<longrightarrow> crawlRelations env recurse contract (earlier @ (subKey, subConfig) # later) st
          = Some (Inl e)"
    by (intro impI, elim conjE, erule crawlRelations_aborts, assumption+)
  show "maybeStore a address (cs_aliases st) = Inr (True, aliases') \<and>
     delegates config = Some delegatesConfig \<and>
     discoverNodes env (build_contract build) (cs_context st) delegatesConfig
       (a @ '':implementation'') = Inr implNodes \<and>
     crawlDelegates env recurse address a implNodes (build_contract build)
       (st\<lparr>cs_aliases := aliases'\<rparr>) = Some (Inl e)
     \<longrightarrow> maybeProcess env recurse address a build config st = Some (Inl e)"
    by (simp add: maybeProcess_def)
  show "maybeStore a address (cs_aliases st) = Inr (True, aliases') \<and>
     (delegates config = None \<and> contract = build_contract build \<and> st1 = st\<lparr>cs_aliases := aliases'\<rparr> \<or>
      delegates config = Some delegatesConfig \<and>
      discoverNodes env (build_contract build) (cs_context st) delegatesConfig
        (a @ '':implementation'') = Inr implNodes \<and>
      crawlDelegates env recurse address a implNodes (build_contract build)
        (st\<lparr>cs_aliases := aliases'\<rparr>) = Some (Inr (contract, st1))) \<and>
     relations config = Some entries \<and>
     crawlRelations env recurse contract entries
       (st1\<lparr>cs_contracts := (cs_contracts st1)(a \<mapsto> contract)\<rparr>) = Some (Inl e)
     \<longrightarrow> maybeProcess env recurse address a build config st = Some (Inl e)"
    by (auto simp: maybeProcess_def)
  show "relationMap (aliasTemplateKey env (template (node_aliasRender node))) = Some aliasConfig \<and>
     getCode env (node_address node) = Inr code \<and> code \<noteq> ''0x'' \<and>
     (case artifact aliasConfig of
        None \<Rightarrow> remoteBuild env (node_address node)
      | Some artifactName \<Rightarrow>
          if artifactName \<noteq> [] then localBuild env artifactName (node_address node)
          else remoteBuild env (node_address node)) = Inr build \<and>
     readAlias env (Some (build_contract build)) (node_aliasRender node) (cs_context st) = Inr found
     \<longrightarrow> crawl_body env relationMap recurse node st
          = maybeProcess env recurse (node_address node) found build aliasConfig st"
    by (simp add: crawl_body_def isContract_def)
  show "relationMap (aliasTemplateKey env (template (node_aliasRender node))) = None \<and>
     getCode env (node_address node) = Inr code \<and> code \<noteq> ''0x'' \<and>
     remoteBuild env (node_address node) = Inr build \<and>
     readAlias env (Some (build_contract build)) (node_aliasRender node) (cs_context st) = Inr found
     \<longrightarrow> crawl_body env relationMap recurse node st
          = maybeProcess env recurse (node_address node) found build
              (case relationMap (contractName env (buildFile build)) of
                 Some contractConfig \<Rightarrow> contractConfig
               | None \<Rightarrow> \<lparr>artifact = None, delegates = None, relations = None\<rparr>)
              st"
    by (simp add: crawl_body_def isContract_def)
  show "crawlRoots recurse before st = Some (Inr st1) \<and>
     recurse \<lparr>node_address = address,
              node_aliasRender = \<lparr>template = Str root, index = 0\<rparr>\<rparr> st1 = Some (Inl e)
     \<longrightarrow> crawlRoots recurse (before @ (root, address) # after) st = Some (Inl e)"
    by (intro impI, elim conjE, erule crawlRoots_aborts, assumption+)
  show "crawlRoots (crawl fuel env relationMap) roots
       \<lparr>cs_context = Map.empty, cs_aliases = Map.empty, cs_proxies = Map.empty,
        cs_contracts = Map.empty\<rparr> = Some (Inl e)
     \<longrightarrow> spider fuel env relationMap roots = Some (Inl e)"
    by (simp add: spider_def)
  show "relationMap (aliasTemplateKey env (template (node_aliasRender node))) = None \<and>
     getCode env (node_address node) = Inr ''0x'' \<and>
     readAlias env None (node_aliasRender node) (cs_context st) = Inr found
     \<longrightarrow> crawl_body env relationMap recurse node st
          = (case maybeStore found (node_address node) (cs_aliases st) of
               Inl e \<Rightarrow> Some (Inl e)
             | Inr (stored, aliases') \<Rightarrow> Some (Inr (found, st\<lparr>cs_aliases := aliases'\<rparr>)))"
    by (simp add: crawl_body_def isContract_def)
qed

lemmas nested_eval = spider_def crawl_body_def maybeProcess_def discoverNodes_def isContract_def
  localBuild_def remoteBuild_def maybeStore_def example_chain_def example_nested_chain_def
  example_nested_relations_def asList_def Let_def enumerate_eq_zip

theorem crawl_config_without_contract_witness:
  "spider 2 example_nested_chain example_nested_relations
     [(''admin'', ''0xF''), (''comet'', ''0xP''), (''rewards'', ''0xB'')]
     = Some (Inl (ConfigButNoContract (Str ''rewards'') ''0xE'')) \<and>
   crawl 1 example_nested_chain example_nested_relations
     \<lparr>node_address = ''0xF'', node_aliasRender = \<lparr>template = Str ''admin'', index = 0\<rparr>\<rparr>
     \<lparr>cs_context = Map.empty, cs_aliases = Map.empty, cs_proxies = Map.empty,
      cs_contracts = Map.empty\<rparr>
     = Some (Inr (''admin'',
         \<lparr>cs_context = Map.empty, cs_aliases = [''admin'' \<mapsto> ''0xF''], cs_proxies = Map.empty,
          cs_contracts = Map.empty\<rparr>))"
proof -
  let ?env = example_nested_chain
  let ?rel = example_nested_relations
  let ?init = "\<lparr>cs_context = Map.empty, cs_aliases = Map.empty, cs_proxies = Map.empty,
      cs_contracts = (Map.empty :: string \<rightharpoonup> string)\<rparr>"
  let ?admin = "\<lparr>node_address = ''0xF'', node_aliasRender = \<lparr>template = Str ''admin'', index = 0\<rparr>\<rparr>"
  let ?comet = "\<lparr>node_address = ''0xP'', node_aliasRender = \<lparr>template = Str ''comet'', index = 0\<rparr>\<rparr>"
  let ?nodeB = "\<lparr>node_address = ''0xB'', node_aliasRender = \<lparr>template = Str ''rewards'', index = 0\<rparr>\<rparr>"
  let ?nodeE = "\<lparr>node_address = ''0xE'', node_aliasRender = \<lparr>template = Str ''rewards'', index = 1\<rparr>\<rparr>"
  let ?inner = "\<lparr>field = None, alias_templates = None\<rparr>"
  let ?cometConfig = "\<lparr>artifact = None, delegates = None,
      relations = Some [(''baseToken'', ?inner), (''rewards'', ?inner)]\<rparr>"
  let ?build = "\<lparr>buildFile = ''Unverified'', build_contract = ''0xP''\<rparr>"
  let ?stA = "\<lparr>cs_context = Map.empty, cs_aliases = [''admin'' \<mapsto> ''0xF''],
      cs_proxies = Map.empty, cs_contracts = (Map.empty :: string \<rightharpoonup> string)\<rparr>"
  let ?stB = "\<lparr>cs_context = Map.empty, cs_aliases = [''admin'' \<mapsto> ''0xF'', ''comet'' \<mapsto> ''0xP''],
      cs_proxies = Map.empty, cs_contracts = [''comet'' \<mapsto> ''0xP'']\<rparr>"
  let ?stC = "\<lparr>cs_context = [''baseToken'' \<mapsto> [''0xA'']],
      cs_aliases = [''admin'' \<mapsto> ''0xF'', ''comet'' \<mapsto> ''0xP'', ''baseToken'' \<mapsto> ''0xA''],
      cs_proxies = Map.empty,
      cs_contracts = [''comet'' \<mapsto> ''0xP'', ''baseToken'' \<mapsto> ''0xA'']\<rparr>"
  let ?stD = "\<lparr>cs_context = [''baseToken'' \<mapsto> [''0xA''], ''rewards'' \<mapsto> [''0xB'']],
      cs_aliases = [''admin'' \<mapsto> ''0xF'', ''comet'' \<mapsto> ''0xP'', ''baseToken'' \<mapsto> ''0xA'',
                    ''rewards'' \<mapsto> ''0xB''],
      cs_proxies = Map.empty,
      cs_contracts = [''comet'' \<mapsto> ''0xP'', ''baseToken'' \<mapsto> ''0xA'', ''rewards'' \<mapsto> ''0xB'']\<rparr>"
  let ?fatal = "ConfigButNoContract (Str ''rewards'') ''0xE''"
  have key: "example_nested_relations (aliasTemplateKey ?env (template (node_aliasRender ?nodeE)))
      = Some \<lparr>artifact = None, delegates = None, relations = None\<rparr>"
    by (simp add: nested_eval)
  have code: "getCode ?env (node_address ?nodeE) = Inr ''0x''"
    by (simp add: nested_eval)
  have leaf: "crawl 1 ?env ?rel ?nodeE ?stD = Some (Inl ?fatal)"
    using crawl_config_without_contract [where env = ?env and relationMap = ?rel
        and node = ?nodeE and st = ?stD and fuel = 0
        and aliasConfig = "\<lparr>artifact = None, delegates = None, relations = None\<rparr>",
        THEN conjunct1] key code
    by simp
  have nodeB: "crawlSubNodes (crawl 1 ?env ?rel) ''rewards'' [?nodeB] ?stC = Some (Inr ?stD)"
    by (simp add: nested_eval)
  have nodes: "crawlSubNodes (crawl 1 ?env ?rel) ''rewards'' [?nodeB, ?nodeE] ?stC = Some (Inl ?fatal)"
    using crawl_config_without_contract [where recurse = "crawl 1 ?env ?rel"
        and subKey = "''rewards''" and pre = "[?nodeB]" and st = ?stC and ?st1.0 = ?stD
        and node = ?nodeE and e = ?fatal and post = "[]",
        THEN conjunct2, THEN conjunct2, THEN conjunct1] nodeB leaf
    by simp
  have baseToken: "crawlRelations ?env (crawl 1 ?env ?rel) ''0xP'' [(''baseToken'', ?inner)] ?stB
      = Some (Inr ?stC)"
    by (simp add: nested_eval)
  have discovered: "discoverNodes ?env ''0xP'' (cs_context ?stC) ?inner ''rewards''
      = Inr [?nodeB, ?nodeE]"
    by (simp add: nested_eval)
  have rels: "crawlRelations ?env (crawl 1 ?env ?rel) ''0xP''
      [(''baseToken'', ?inner), (''rewards'', ?inner)] ?stB = Some (Inl ?fatal)"
    using crawl_config_without_contract [where env = ?env and recurse = "crawl 1 ?env ?rel"
        and contract = "''0xP''" and earlier = "[(''baseToken'', ?inner)]" and st = ?stB
        and ?st1.0 = ?stC and subConfig = ?inner and subKey = "''rewards''"
        and subNodes = "[?nodeB, ?nodeE]" and e = ?fatal and later = "[]",
        THEN conjunct2, THEN conjunct2, THEN conjunct2, THEN conjunct1]
      baseToken discovered nodes
    by simp
  have process: "maybeProcess ?env (crawl 1 ?env ?rel) ''0xP'' ''comet'' ?build ?cometConfig ?stA
      = Some (Inl ?fatal)"
    using crawl_config_without_contract [where env = ?env and recurse = "crawl 1 ?env ?rel"
        and a = "''comet''" and address = "''0xP''" and st = ?stA
        and aliases' = "[''admin'' \<mapsto> ''0xF'', ''comet'' \<mapsto> ''0xP'']"
        and config = ?cometConfig and contract = "''0xP''" and build = ?build
        and ?st1.0 = "?stA\<lparr>cs_aliases := [''admin'' \<mapsto> ''0xF'', ''comet'' \<mapsto> ''0xP'']\<rparr>"
        and entries = "[(''baseToken'', ?inner), (''rewards'', ?inner)]" and e = ?fatal,
        THEN conjunct2, THEN conjunct2, THEN conjunct2, THEN conjunct2, THEN conjunct2,
        THEN conjunct1]
      rels
    by (simp add: maybeStore_def)
  have cometKey: "example_nested_relations (aliasTemplateKey ?env (template (node_aliasRender ?comet)))
      = Some ?cometConfig"
    by (simp add: nested_eval)
  have comet: "crawl 2 ?env ?rel ?comet ?stA = Some (Inl ?fatal)"
    using crawl_config_without_contract [where env = ?env and relationMap = ?rel
        and node = ?comet and aliasConfig = ?cometConfig and code = "''0x6080''"
        and build = ?build and st = ?stA and found = "''comet''"
        and recurse = "crawl 1 ?env ?rel",
        THEN conjunct2, THEN conjunct2, THEN conjunct2, THEN conjunct2, THEN conjunct2,
        THEN conjunct2, THEN conjunct1]
      cometKey process
    by (simp add: numeral_2_eq_2 remoteBuild_def example_nested_chain_def example_chain_def)
  have first: "crawlRoots (crawl 2 ?env ?rel) [(''admin'', ''0xF'')] ?init = Some (Inr ?stA)"
    by (simp add: nested_eval numeral_2_eq_2)
  have roots: "crawlRoots (crawl 2 ?env ?rel)
      [(''admin'', ''0xF''), (''comet'', ''0xP''), (''rewards'', ''0xB'')] ?init = Some (Inl ?fatal)"
    using crawl_config_without_contract [where recurse = "crawl 2 ?env ?rel"
        and before = "[(''admin'', ''0xF'')]" and st = ?init and ?st1.0 = ?stA
        and address = "''0xP''" and root = "''comet''" and e = ?fatal
        and after = "[(''rewards'', ''0xB'')]",
        THEN conjunct2, THEN conjunct2, THEN conjunct2, THEN conjunct2, THEN conjunct2,
        THEN conjunct2, THEN conjunct2, THEN conjunct2, THEN conjunct1]
      first comet
    by simp
  have fatal: "spider 2 ?env ?rel [(''admin'', ''0xF''), (''comet'', ''0xP''), (''rewards'', ''0xB'')]
      = Some (Inl ?fatal)"
    using crawl_config_without_contract [where env = ?env and relationMap = ?rel and fuel = 2
        and roots = "[(''admin'', ''0xF''), (''comet'', ''0xP''), (''rewards'', ''0xB'')]"
        and e = ?fatal,
        THEN conjunct2, THEN conjunct2, THEN conjunct2, THEN conjunct2, THEN conjunct2,
        THEN conjunct2, THEN conjunct2, THEN conjunct2, THEN conjunct2, THEN conjunct1]
      roots
    by simp
  have n: "example_nested_relations (aliasTemplateKey ?env (template (node_aliasRender ?admin))) = None"
    by (simp add: nested_eval)
  have g: "getCode ?env (node_address ?admin) = Inr ''0x''"
    by (simp add: nested_eval)
  have r: "readAlias ?env None (node_aliasRender ?admin) (cs_context ?init) = Inr ''admin''"
    by (simp add: nested_eval)
  have direct: "crawl 1 ?env ?rel ?admin ?init = Some (Inr (''admin'', ?stA))"
    using crawl_config_without_contract [where env = ?env
        and relationMap = ?rel and node = "?admin" and st = "?init"
        and found = "''admin''" and recurse = "crawl 0 ?env ?rel",
        THEN conjunct2, THEN conjunct2, THEN conjunct2, THEN conjunct2, THEN conjunct2,
        THEN conjunct2, THEN conjunct2, THEN conjunct2, THEN conjunct2, THEN conjunct2] n g r
    by (simp add: maybeStore_def)
  show ?thesis using fatal direct by simp
qed

subsection \<open>Deployment manager\<close>

lemma dm_spider_returns:
  assumes "dm_spider fuel env deployed m = Some (Inr crawled, m')"
  shows "contractsCache m' = Undefined \<and> counter m' = counter m \<and> outside m' = outside m \<and>
         signers m' = signers m"
  using assms
  by (auto simp: dm_spider_def putRoots_def storeAliases_def storeProxies_def Let_def
      split: option.splits sum.splits prod.splits)

lemma dm_spider_throws:
  assumes "dm_spider fuel env deployed m = Some (Inl e, m')"
  shows "m' = m"
  using assms
  by (auto simp: dm_spider_def putRoots_def storeAliases_def storeProxies_def Let_def
      split: option.splits sum.splits prod.splits)

lemma dm_contract_undefined:
  assumes "contractsCache m = Undefined"
  shows "dm_contract fuel env a m = Some (Inl TypeError, m)"
  using assms by (simp add: dm_contract_def dm_contracts_def)

lemma dm_contract_null:
  assumes "contractsCache m = Null"
  shows "dm_contract fuel env a m =
     (case dm_spider fuel env [] m of
        None \<Rightarrow> None
      | Some (Inl e, m') \<Rightarrow> Some (Inl e, m')
      | Some (Inr crawled, m') \<Rightarrow> Some (Inl TypeError, m'))"
proof (cases "dm_spider fuel env [] m")
  case None
  then show ?thesis using assms by (simp add: dm_contract_def dm_contracts_def)
next
  case (Some r)
  obtain out m' where r: "r = (out, m')" by (cases r)
  show ?thesis
  proof (cases out)
    case (Inl e)
    then show ?thesis using assms Some r by (simp add: dm_contract_def dm_contracts_def)
  next
    case (Inr crawled)
    then have "contractsCache m' = Undefined"
      using dm_spider_returns Some r by blast
    then show ?thesis using assms Some r Inr by (simp add: dm_contract_def dm_contracts_def)
  qed
qed

lemma dm_contract_never_finds:
  assumes "\<forall>found. contractsCache m \<noteq> Loaded found"
    and "dm_contract fuel env a m = Some (out, m')"
  shows "isl out \<and> (\<forall>found. contractsCache m' \<noteq> Loaded found)"
proof (cases "contractsCache m")
  case Null
  show ?thesis
  proof (cases "dm_spider fuel env [] m")
    case None
    then show ?thesis using assms(2) Null by (simp add: dm_contract_null)
  next
    case (Some r)
    obtain o1 m1 where r: "r = (o1, m1)" by (cases r)
    show ?thesis
    proof (cases o1)
      case (Inl e)
      then have "m1 = m" using dm_spider_throws Some r by blast
      then show ?thesis using assms Null Some r Inl by (auto simp: dm_contract_null)
    next
      case (Inr crawled)
      then have "contractsCache m1 = Undefined" using dm_spider_returns Some r by blast
      then show ?thesis using assms(2) Null Some r Inr by (auto simp: dm_contract_null)
    qed
  qed
next
  case Undefined
  then show ?thesis using assms(2) by (auto simp: dm_contract_undefined)
next
  case (Loaded found)
  then show ?thesis using assms(1) by simp
qed


lemma methods_undefined:
  assumes u: "contractsCache m = Undefined"
  shows "deploy fuel env a contractFile deployArgs force retries m = Some (Inl TypeError, m) \<and>
       clone fuel env a address deployArgs fromNetwork force retries m = Some (Inl TypeError, m) \<and>
       existing fuel env a address m = Some (Inl TypeError, m)"
  by (simp add: deploy_def clone_def existing_def dm_contract_undefined [OF u])

lemma methods_spider_returns:
  assumes n: "contractsCache m = Null" and s: "dm_spider fuel env [] m = Some (Inr crawled, m')"
  shows "contractsCache m' = Undefined \<and> counter m' = counter m \<and> outside m' = outside m \<and>
       deploy fuel env a contractFile deployArgs force retries m = Some (Inl TypeError, m') \<and>
       clone fuel env a address deployArgs fromNetwork force retries m = Some (Inl TypeError, m') \<and>
       existing fuel env a address m = Some (Inl TypeError, m')"
  using dm_spider_returns [OF s]
  by (simp add: deploy_def clone_def existing_def dm_contract_null [OF n] s)

lemma methods_spider_throws:
  assumes n: "contractsCache m = Null" and s: "dm_spider fuel env [] m = Some (Inl e, m')"
  shows "m' = m \<and>
       deploy fuel env a contractFile deployArgs force retries m = Some (Inl e, m) \<and>
       clone fuel env a address deployArgs fromNetwork force retries m = Some (Inl e, m) \<and>
       existing fuel env a address m = Some (Inl e, m)"
  using dm_spider_throws [OF s]
  by (simp add: deploy_def clone_def existing_def dm_contract_null [OF n] s)

lemma methods_spider_unfinished:
  assumes n: "contractsCache m = Null" and s: "dm_spider fuel env [] m = None"
  shows "deploy fuel env a contractFile deployArgs force retries m = None \<and>
       clone fuel env a address deployArgs fromNetwork force retries m = None \<and>
       existing fuel env a address m = None"
  by (simp add: deploy_def clone_def existing_def dm_contract_null [OF n] s)

lemma methods_never_return:
  assumes unloaded: "\<forall>found. contractsCache m \<noteq> Loaded found"
    and returned: "deploy fuel env a contractFile deployArgs force retries m = Some (out, after) \<or>
          clone fuel env a address deployArgs fromNetwork force retries m = Some (out, after) \<or>
          existing fuel env a address m = Some (out, after)"
  shows "isl out \<and> (\<forall>found. contractsCache after \<noteq> Loaded found)"
proof -
  have lookup: "isl looked \<and> (\<forall>found. contractsCache m1 \<noteq> Loaded found)"
    if "dm_contract fuel env a m = Some (looked, m1)" for looked m1
    using dm_contract_never_finds [OF unloaded that] .
  have "dm_contract fuel env a m = Some (Inl (projl out), after) \<and> isl out"
    using returned lookup
    by (auto simp: deploy_def clone_def existing_def split: option.splits sum.splits prod.splits)
  then show ?thesis
    using lookup by blast
qed

text \<open>
  C5. The claim does not hold of the code: the contract map is never there. The
  constructor leaves \<open>contractsCache\<close> \<open>null\<close>, the manager's \<open>spider\<close> sets it to \<open>undefined\<close>, and
  no method loads it. So on a manager whose field is \<open>undefined\<close>, \<open>deploy\<close>, \<open>clone\<close> and
  \<open>existing\<close> throw a \<open>TypeError\<close> at the lookup and leave the manager as it was; on one whose
  field is \<open>null\<close> they run the spider and, when it returns, throw the \<open>TypeError\<close> with nothing
  deployed, and otherwise throw what the spider threw or do not return when it does not.
  Whatever the alias, \<open>force\<close> and the other arguments, none of them returns a handle, and
  the field is not loaded afterwards either.
\<close>

theorem deploy_clone_existing_throw:
  fixes env :: "('args, 'b, 'c, 'sg, 'k, 'x) deployment" and m :: "('c, 'sg, 'k) manager"
  shows
   "(contractsCache m = Undefined \<longrightarrow>
       deploy fuel env a contractFile deployArgs force retries m = Some (Inl TypeError, m) \<and>
       clone fuel env a address deployArgs fromNetwork force retries m = Some (Inl TypeError, m) \<and>
       existing fuel env a address m = Some (Inl TypeError, m)) \<and>
    (contractsCache m = Null \<and> dm_spider fuel env [] m = Some (Inr crawled, m') \<longrightarrow>
       contractsCache m' = Undefined \<and> counter m' = counter m \<and> outside m' = outside m \<and>
       deploy fuel env a contractFile deployArgs force retries m = Some (Inl TypeError, m') \<and>
       clone fuel env a address deployArgs fromNetwork force retries m = Some (Inl TypeError, m') \<and>
       existing fuel env a address m = Some (Inl TypeError, m')) \<and>
    (contractsCache m = Null \<and> dm_spider fuel env [] m = Some (Inl e, m') \<longrightarrow>
       m' = m \<and>
       deploy fuel env a contractFile deployArgs force retries m = Some (Inl e, m) \<and>
       clone fuel env a address deployArgs fromNetwork force retries m = Some (Inl e, m) \<and>
       existing fuel env a address m = Some (Inl e, m)) \<and>
    (contractsCache m = Null \<and> dm_spider fuel env [] m = None \<longrightarrow>
       deploy fuel env a contractFile deployArgs force retries m = None \<and>
       clone fuel env a address deployArgs fromNetwork force retries m = None \<and>
       existing fuel env a address m = None) \<and>
    ((\<forall>found. contractsCache m \<noteq> Loaded found) \<longrightarrow>
       (\<forall>out after.
          deploy fuel env a contractFile deployArgs force retries m = Some (out, after) \<or>
          clone fuel env a address deployArgs fromNetwork force retries m = Some (out, after) \<or>
          existing fuel env a address m = Some (out, after)
          \<longrightarrow> isl out \<and> (\<forall>found. contractsCache after \<noteq> Loaded found))) \<and>
    contractsCache
      (new_manager configuredRetries configuredDelay roots aliases proxies world
         :: ('c, 'sg, 'k) manager) = Null"
proof (intro conjI)
  show "contractsCache m = Undefined \<longrightarrow>
       deploy fuel env a contractFile deployArgs force retries m = Some (Inl TypeError, m) \<and>
       clone fuel env a address deployArgs fromNetwork force retries m = Some (Inl TypeError, m) \<and>
       existing fuel env a address m = Some (Inl TypeError, m)"
    by (intro impI, rule methods_undefined)
  show "contractsCache m = Null \<and> dm_spider fuel env [] m = Some (Inr crawled, m') \<longrightarrow>
       contractsCache m' = Undefined \<and> counter m' = counter m \<and> outside m' = outside m \<and>
       deploy fuel env a contractFile deployArgs force retries m = Some (Inl TypeError, m') \<and>
       clone fuel env a address deployArgs fromNetwork force retries m = Some (Inl TypeError, m') \<and>
       existing fuel env a address m = Some (Inl TypeError, m')"
    by (intro impI, elim conjE, rule methods_spider_returns)
  show "contractsCache m = Null \<and> dm_spider fuel env [] m = Some (Inl e, m') \<longrightarrow>
       m' = m \<and>
       deploy fuel env a contractFile deployArgs force retries m = Some (Inl e, m) \<and>
       clone fuel env a address deployArgs fromNetwork force retries m = Some (Inl e, m) \<and>
       existing fuel env a address m = Some (Inl e, m)"
    by (intro impI, elim conjE, rule methods_spider_throws)
  show "contractsCache m = Null \<and> dm_spider fuel env [] m = None \<longrightarrow>
       deploy fuel env a contractFile deployArgs force retries m = None \<and>
       clone fuel env a address deployArgs fromNetwork force retries m = None \<and>
       existing fuel env a address m = None"
    by (intro impI, elim conjE, rule methods_spider_unfinished)
  show "(\<forall>found. contractsCache m \<noteq> Loaded found) \<longrightarrow>
       (\<forall>out after.
          deploy fuel env a contractFile deployArgs force retries m = Some (out, after) \<or>
          clone fuel env a address deployArgs fromNetwork force retries m = Some (out, after) \<or>
          existing fuel env a address m = Some (out, after)
          \<longrightarrow> isl out \<and> (\<forall>found. contractsCache after \<noteq> Loaded found))"
    by (intro impI allI, rule methods_never_return)
  show "contractsCache
      (new_manager configuredRetries configuredDelay roots aliases proxies world
         :: ('c, 'sg, 'k) manager) = Null"
    by (simp add: new_manager_def)
qed

lemmas manager_eval = example_deployment_def example_manager_def new_manager_def dm_spider_def
  newMap_def getRoots_def putRoots_def storeAliases_def storeProxies_def

theorem deploy_clone_existing_throw_witness:
  "deploy 1 example_deployment ''USDC:admin'' ''vendor/proxy/transparent/ProxyAdmin.sol'' ()
      False None example_manager
     = Some (Inl TypeError,
         example_manager\<lparr>storedAliases := [''rewards'' \<mapsto> ''0xB''], contractsCache := Undefined\<rparr>) \<and>
   clone 1 example_deployment ''USDC'' ''0xA'' () ''mainnet'' True None example_manager
     = Some (Inl TypeError,
         example_manager\<lparr>storedAliases := [''rewards'' \<mapsto> ''0xB''], contractsCache := Undefined\<rparr>) \<and>
   existing 1 example_deployment ''rewards'' ''0xB'' example_manager
     = Some (Inl TypeError,
         example_manager\<lparr>storedAliases := [''rewards'' \<mapsto> ''0xB''], contractsCache := Undefined\<rparr>) \<and>
   existing 1 example_deployment ''rewards'' ''0xB''
      (example_manager\<lparr>storedAliases := [''rewards'' \<mapsto> ''0xB''], contractsCache := Undefined\<rparr>)
     = Some (Inl TypeError,
         example_manager\<lparr>storedAliases := [''rewards'' \<mapsto> ''0xB''], contractsCache := Undefined\<rparr>)"
proof -
  let ?after = "example_manager\<lparr>storedAliases := [''rewards'' \<mapsto> ''0xB''],
      contractsCache := Undefined\<rparr>"
  have n: "contractsCache example_manager = Null"
    by (simp add: manager_eval)
  have crawled: "spider 1 example_chain example_relations [(''rewards'', ''0xB'')]
      = Some (Inr ([''rewards'' \<mapsto> ''0xB''], Map.empty))"
    by (simp add: crawl_eval)
  have s: "dm_spider 1 example_deployment [] example_manager
      = Some (Inr ([''rewards'' \<mapsto> ''0xB''], Map.empty), ?after)"
    using crawled by (simp add: manager_eval)
  have d: "deploy 1 example_deployment ''USDC:admin'' ''vendor/proxy/transparent/ProxyAdmin.sol'' ()
      False None example_manager = Some (Inl TypeError, ?after)"
    using deploy_clone_existing_throw [where m = example_manager and fuel = 1
        and env = example_deployment and m' = ?after
        and crawled = "([''rewards'' \<mapsto> ''0xB''], Map.empty)" and a = "''USDC:admin''"
        and contractFile = "''vendor/proxy/transparent/ProxyAdmin.sol''" and deployArgs = "()"
        and force = False and retries = None, THEN conjunct2, THEN conjunct1] n s
    by simp
  have c: "clone 1 example_deployment ''USDC'' ''0xA'' () ''mainnet'' True None example_manager
      = Some (Inl TypeError, ?after)"
    using deploy_clone_existing_throw [where m = example_manager and fuel = 1
        and env = example_deployment and m' = ?after
        and crawled = "([''rewards'' \<mapsto> ''0xB''], Map.empty)" and a = "''USDC''"
        and address = "''0xA''" and deployArgs = "()"
        and fromNetwork = "''mainnet''" and force = True and retries = None,
        THEN conjunct2, THEN conjunct1] n s
    by simp
  have e: "existing 1 example_deployment ''rewards'' ''0xB'' example_manager
      = Some (Inl TypeError, ?after)"
    using deploy_clone_existing_throw [where m = example_manager and fuel = 1
        and env = example_deployment and m' = ?after
        and crawled = "([''rewards'' \<mapsto> ''0xB''], Map.empty)" and a = "''rewards''"
        and address = "''0xB''", THEN conjunct2, THEN conjunct1] n s
    by simp
  have u: "contractsCache ?after = Undefined"
    by simp
  have again: "existing 1 example_deployment ''rewards'' ''0xB'' ?after = Some (Inl TypeError, ?after)"
    using deploy_clone_existing_throw [where m = ?after and fuel = 1
      and env = example_deployment and a = "''rewards''" and address = "''0xB''",
      THEN conjunct1] u
    by simp
  show ?thesis using d c e again by simp
qed

end
